theory Spec2Isabelle
  imports Main "HOL-Library.Finite_Map" "HOL-Library.Word"
begin

section \<open>The Saga coordinator of gen/saga.go and the Server loop\<close>

text \<open>
  The file \<^verbatim>\<open>gen/saga.go\<close> holds two revisions of the Saga. The model follows the
  first, current one (package \<^verbatim>\<open>gen\<close>, a \<^verbatim>\<open>SagaProcess\<close> with the maps \<^verbatim>\<open>txs\<close>,
  \<^verbatim>\<open>steps\<close> and \<^verbatim>\<open>jobs\<close>), and the loop \<^verbatim>\<open>ProcessLoop\<close> of \<^verbatim>\<open>gen.Server\<close>, on which
  that Saga is built. Every function takes the state of the Saga process and returns
  the new state together with the list of effects it performed, in program order:
  messages sent, monitors installed, user callbacks invoked. What the environment
  answers (the reference a monitor returns, the clock, the error of a synchronous
  call, the status a user callback returns) is a parameter of the function. An
  operation runs from its start to its end with no other in between, as the state
  lock of the loop makes the callbacks do. Go's \<^verbatim>\<open>int\<close> and \<^verbatim>\<open>uint\<close> are 64 bits wide.
  The earlier revision of the Saga in the same file is not modelled. The earlier
  loop, \<^verbatim>\<open>GenServer.Loop\<close> of package \<^verbatim>\<open>ergo\<close>, is modelled beside \<^verbatim>\<open>ProcessLoop\<close>.
\<close>

subsection \<open>Terms, identifiers, destinations\<close>

type_synonym etf_Pid = nat
type_synonym etf_Ref = nat

text \<open>\<^verbatim>\<open>etf.Term\<close> is \<^verbatim>\<open>interface{}\<close>: the values the Saga code builds or inspects, and
  the Go structs that reach \<^verbatim>\<open>HandleInfo\<close> and \<^verbatim>\<open>HandleCall\<close> as messages.\<close>

datatype etf_term =
    TAtom string
  | TPid etf_Pid
  | TRef etf_Ref
  | TString string
  | TInt64 "64 word"
  | TUint "64 word"
  | TBool bool
  | TNil
  | TTuple "etf_term list"
  | TList "etf_term list"
  | TListImproper "etf_term list"
  | TMap "(string \<times> etf_term) list"
  | TAlias etf_Ref
  | TMessageExit etf_Pid string
  | TMessageDown etf_Ref etf_Pid string
  | TJobResult etf_Pid etf_term
  | TJobInterim etf_Pid etf_term

text \<open>The destination of a send, a monitor or a step: \<^verbatim>\<open>etf.Pid\<close>, a local registered
  name, or \<^verbatim>\<open>gen.ProcessID{Name, Node}\<close>.\<close>

datatype dest = ToPid etf_Pid | ToName string | ToProcessID string string

text \<open>Go errors are compared by identity: \<^verbatim>\<open>SagaStatusStop\<close> and \<^verbatim>\<open>ServerStatusStop\<close> are
  two values with the same text. \<open>StatusOK\<close> is \<^verbatim>\<open>nil\<close>; \<open>Error s\<close> is a value made on
  the spot by \<^verbatim>\<open>fmt.Errorf(s)\<close>; \<open>Panicked\<close> marks a run that ended in a Go panic.\<close>

datatype status =
    StatusOK
  | SagaStatusStop
  | sagaStatusUnsupported
  | ServerStatusStop
  | ServerStatusIgnore
  | ErrUnsupportedRequest
  | ErrServerTerminated
  | Error string
  | Panicked

subsection \<open>The data model\<close>

record SagaTransactionOptions =
  HopLimit :: "64 word"
  Lifespan :: "64 word"
  TwoPhaseCommit :: bool

record SagaOptions =
  MaxTransactions :: "64 word"
  Worker :: "string option"

record SagaStep =
  step_Saga :: dest
  step_Value :: etf_term
  step_Timeout :: "64 word"
  step_done :: bool

record SagaTransaction =
  tx_id :: etf_Ref
  tx_options :: SagaTransactionOptions
  tx_origin :: etf_Ref
  tx_monitor :: etf_Ref
  tx_steps :: "(etf_Ref, SagaStep) fmap"
  tx_jobs :: "(etf_Pid, bool) fmap"
  tx_arrival :: "64 word"
  tx_parents :: "etf_Pid list"

record SagaJob =
  job_ID :: etf_Ref
  job_TXID :: etf_Ref
  job_Value :: etf_term
  job_Timeout :: "64 word"
  job_saga :: etf_Pid
  job_commit :: bool
  job_worker :: etf_Pid
  job_done :: bool

text \<open>
  \<^verbatim>\<open>sp.txs\<close> and \<^verbatim>\<open>sp.steps\<close> hold pointers to \<^verbatim>\<open>SagaTransaction\<close> objects, and one
  object is reachable from both. The objects live in \<open>store\<close>, addressed by a number;
  \<open>next_addr\<close> is the next free address. \<^verbatim>\<open>sp.jobs\<close> is \<^verbatim>\<open>nil\<close> (\<open>None\<close>) unless the
  Saga has a worker behavior.
\<close>

record SagaProcess =
  self :: etf_Pid
  options :: SagaOptions
  txs :: "(etf_Ref, nat) fmap"
  steps :: "(etf_Ref, nat) fmap"
  jobs :: "(etf_Pid, SagaJob) fmap option"
  store :: "nat \<Rightarrow> SagaTransaction"
  next_addr :: nat

record messageSaga =
  Request :: string
  Pid :: etf_Pid
  Command :: etf_term

record messageSagaStep =
  step_Origin :: etf_Ref
  step_TransactionID :: etf_Ref
  msg_Value :: etf_term
  Parents :: "etf_Pid list"
  Options :: "(string \<times> etf_term) list"

record messageSagaResult =
  result_TransactionID :: etf_Ref
  result_Origin :: etf_Ref
  Result :: etf_term

record ServerFrom =
  from_Pid :: etf_Pid
  from_Ref :: etf_Ref
  ReplyByAlias :: bool

datatype direct_message = sagaSetMaxTransactions "64 word" | DirectOther etf_term

text \<open>What a function did, in order. The \<open>Handle...\<close> effects are invocations of the
  callbacks of \<^verbatim>\<open>SagaBehavior\<close> with the arguments shown.\<close>

datatype effect =
    Send dest etf_term
  | MonitorProcess dest
  | DemonitorProcess etf_Ref
  | Spawn string
  | Link etf_Pid
  | Kill etf_Pid
  | Cast etf_Pid SagaJob
  | Call etf_Pid etf_term
  | HandleTxNew etf_Ref etf_term
  | HandleTxResult etf_Ref etf_Ref etf_term
  | HandleTxCancel etf_Ref string
  | HandleTxInterim etf_Ref etf_Ref etf_term
  | HandleJobResult etf_Ref etf_term
  | HandleJobInterim etf_Ref etf_term
  | HandleJobFailed etf_Ref string
  | HandleSagaCall ServerFrom etf_term
  | HandleSagaCast etf_term
  | HandleSagaInfo etf_term
  | HandleSagaDirect etf_term

definition defaultHopLimit :: "64 word" where
  "defaultHopLimit = 65535"

definition defaultLifespan :: "64 word" where
  "defaultLifespan = 60"

text \<open>\<^verbatim>\<open>len(m)\<close> of a Go map, as a Go \<^verbatim>\<open>int\<close>.\<close>

definition len :: "('k, 'v) fmap \<Rightarrow> int" where
  "len m = int (fcard (fmdom m))"

subsection \<open>Decoding terms into structs\<close>

text \<open>
  Modelled from the spec: \<^verbatim>\<open>etf.TermIntoStruct\<close> is not among the sources. The wire
  protocol gives the shapes: \<^verbatim>\<open>{Tag, SenderPid, Command}\<close> for \<^verbatim>\<open>messageSaga\<close>,
  \<^verbatim>\<open>{StepRef, TxRef, Value, Parents, OptionsMap}\<close> for \<^verbatim>\<open>messageSagaStep\<close> and
  \<^verbatim>\<open>{TxRef, StepRef, Value}\<close> for \<^verbatim>\<open>messageSagaResult\<close>; a term of another shape
  does not decode.
\<close>

fun the_pids :: "etf_term list \<Rightarrow> etf_Pid list option" where
  "the_pids [] = Some []"
| "the_pids (t # ts) =
     (case t of
        TPid p \<Rightarrow> (case the_pids ts of Some ps \<Rightarrow> Some (p # ps) | None \<Rightarrow> None)
      | _ \<Rightarrow> None)"

definition into_messageSaga :: "etf_term \<Rightarrow> messageSaga option" where
  "into_messageSaga t =
     (case t of
        TTuple [TAtom r, TPid p, c] \<Rightarrow> Some \<lparr>Request = r, Pid = p, Command = c\<rparr>
      | _ \<Rightarrow> None)"

definition into_messageSagaStep :: "etf_term \<Rightarrow> messageSagaStep option" where
  "into_messageSagaStep t =
     (case t of
        TTuple [TRef origin, TRef txid, v, TList ps, TMap opts] \<Rightarrow>
          (case the_pids ps of
             Some pids \<Rightarrow>
               Some \<lparr>step_Origin = origin, step_TransactionID = txid, msg_Value = v,
                     Parents = pids, Options = opts\<rparr>
           | None \<Rightarrow> None)
      | _ \<Rightarrow> None)"

definition into_messageSagaResult :: "etf_term \<Rightarrow> messageSagaResult option" where
  "into_messageSagaResult t =
     (case t of
        TTuple [TRef txid, TRef origin, v] \<Rightarrow>
          Some \<lparr>result_TransactionID = txid, result_Origin = origin, Result = v\<rparr>
      | _ \<Rightarrow> None)"

subsection \<open>SagaProcess methods\<close>

text \<open>\<^verbatim>\<open>CancelTransaction\<close>: posts \<^verbatim>\<open>$saga_cancel\<close> to the Saga itself when the transaction
  is in the map, and does nothing otherwise.\<close>

definition CancelTransaction ::
  "SagaProcess \<Rightarrow> etf_Ref \<Rightarrow> string \<Rightarrow> SagaProcess \<times> effect list" where
  "CancelTransaction sp id' reason =
     (case fmlookup (txs sp) id' of
        None \<Rightarrow> (sp, [])
      | Some p \<Rightarrow>
          (let tx = store sp p;
               message = TTuple [TAtom ''$saga_cancel'', TPid (self sp),
                           TTuple [TRef (tx_id tx), TRef (tx_origin tx), TString reason]]
           in (sp, [Send (ToPid (self sp)) message])))"

text \<open>\<^verbatim>\<open>Next\<close>. \<open>now\<close> is \<^verbatim>\<open>time.Now().Unix()\<close> and \<open>ref\<close> the reference
  \<^verbatim>\<open>MonitorProcess\<close> returns. The \<^verbatim>\<open>int64\<close> arithmetic wraps; the comparison with 1 is
  signed. The zero \<^verbatim>\<open>SagaStepID\<close> returned with an error is 0.\<close>

definition Next ::
  "SagaProcess \<Rightarrow> etf_Ref \<Rightarrow> SagaStep \<Rightarrow> 64 word \<Rightarrow> etf_Ref
     \<Rightarrow> (etf_Ref \<times> status) \<times> SagaProcess \<times> effect list" where
  "Next sp id' step now ref =
     (case fmlookup (txs sp) id' of
        None \<Rightarrow> ((0, Error ''unknown transaction''), sp, [])
      | Some p \<Rightarrow>
          (let tx = store sp p in
           if len (tx_steps tx) > sint (HopLimit (tx_options tx))
           then ((0, Error ''exceeded hop limit''), sp, [])
           else
             (let step_Lifespan = Lifespan (tx_options tx) - (now - tx_arrival tx) in
              if sint step_Lifespan < 1
              then
                (case CancelTransaction sp id' ''exceeded lifespan'' of
                   (sp', es) \<Rightarrow>
                     ((0, Error ''exceeded lifespan. transaction canceled''), sp', es))
              else
                (let message =
                       TTuple [TAtom ''$saga_next'', TPid (self sp),
                         TTuple [TRef ref, TRef (tx_id tx), step_Value step,
                           TList (map TPid (tx_parents tx)),
                           TMap [(''HopLimit'', TUint (HopLimit (tx_options tx))),
                                 (''Lifespan'', TInt64 step_Lifespan),
                                 (''TwoPhaseCommit'',
                                    TBool (TwoPhaseCommit (tx_options tx)))]]];
                     tx' = tx\<lparr>tx_steps := fmupd ref step (tx_steps tx)\<rparr>
                 in ((ref, StatusOK),
                     sp\<lparr>store := (store sp)(p := tx'), steps := fmupd ref p (steps sp)\<rparr>,
                     [MonitorProcess (step_Saga step), Send (step_Saga step) message])))))"

text \<open>\<^verbatim>\<open>StartTransaction\<close>. \<open>newid\<close> is the reference \<^verbatim>\<open>MakeRef\<close> returns, \<open>now1\<close> the
  clock read for \<^verbatim>\<open>arrival\<close>; \<open>now2\<close> and \<open>ref\<close> are what the call of \<^verbatim>\<open>Next\<close> reads.
  The result of \<^verbatim>\<open>Next\<close> is dropped.\<close>

definition StartTransaction ::
  "SagaProcess \<Rightarrow> string \<Rightarrow> SagaTransactionOptions \<Rightarrow> etf_term \<Rightarrow> etf_Ref \<Rightarrow> 64 word
     \<Rightarrow> 64 word \<Rightarrow> etf_Ref \<Rightarrow> etf_Ref \<times> SagaProcess \<times> effect list" where
  "StartTransaction sp name opts v newid now1 now2 ref =
     (let opts1 = (if HopLimit opts = 0 then opts\<lparr>HopLimit := defaultHopLimit\<rparr> else opts);
          opts2 = (if Lifespan opts1 = 0 then opts1\<lparr>Lifespan := defaultLifespan\<rparr> else opts1);
          tx = \<lparr>tx_id = newid, tx_options = opts2, tx_origin = 0, tx_monitor = 0,
                tx_steps = fmempty, tx_jobs = fmempty, tx_arrival = now1, tx_parents = []\<rparr>;
          p = next_addr sp;
          sp1 = sp\<lparr>store := (store sp)(p := tx), txs := fmupd newid p (txs sp),
                   next_addr := Suc p\<rparr>;
          step = \<lparr>step_Saga = ToPid (self sp), step_Value = v, step_Timeout = 0,
                  step_done = False\<rparr>
      in case Next sp1 newid step now2 ref of (r, sp2, es) \<Rightarrow> (newid, sp2, es))"

text \<open>Reads, deletes and writes on \<^verbatim>\<open>sp.jobs\<close>: a \<^verbatim>\<open>nil\<close> map reads as empty, a
  delete on it does nothing, a write to it panics.\<close>

definition jobs_lookup :: "SagaProcess \<Rightarrow> etf_Pid \<Rightarrow> SagaJob option" where
  "jobs_lookup sp pid = (case jobs sp of None \<Rightarrow> None | Some js \<Rightarrow> fmlookup js pid)"

definition jobs_delete :: "SagaProcess \<Rightarrow> etf_Pid \<Rightarrow> SagaProcess" where
  "jobs_delete sp pid =
     (case jobs sp of None \<Rightarrow> sp | Some js \<Rightarrow> sp\<lparr>jobs := Some (fmdrop pid js)\<rparr>)"

text \<open>\<^verbatim>\<open>StartJob\<close>. \<open>spawned\<close> is what \<^verbatim>\<open>Spawn\<close> returns (the error, or the pid of the
  worker), \<open>jobid\<close> the reference \<^verbatim>\<open>MakeRef\<close> returns, \<open>cast_err\<close> the error of \<^verbatim>\<open>Cast\<close>
  (\<open>StatusOK\<close> when none).\<close>

definition StartJob ::
  "SagaProcess \<Rightarrow> etf_Ref \<Rightarrow> 64 word \<Rightarrow> etf_term \<Rightarrow> status + etf_Pid \<Rightarrow> etf_Ref \<Rightarrow> status
     \<Rightarrow> (etf_Ref \<times> status) \<times> SagaProcess \<times> effect list" where
  "StartJob sp id' timeout v spawned jobid cast_err =
     (case Worker (options sp) of
        None \<Rightarrow> ((0, Error ''This saga has no worker''), sp, [])
      | Some w \<Rightarrow>
          (case fmlookup (txs sp) id' of
             None \<Rightarrow> ((0, Error ''unknown transaction''), sp, [])
           | Some p \<Rightarrow>
               (case spawned of
                  Inl err \<Rightarrow> ((0, err), sp, [Spawn w])
                | Inr worker \<Rightarrow>
                    (let tx = store sp p;
                         job = \<lparr>job_ID = jobid, job_TXID = id', job_Value = v,
                                 job_Timeout = 0, job_saga = self sp,
                                 job_commit = TwoPhaseCommit (tx_options tx),
                                 job_worker = worker, job_done = False\<rparr>
                     in if cast_err \<noteq> StatusOK
                        then ((0, cast_err), sp,
                              [Spawn w, Link worker, Cast worker job, Kill worker])
                        else
                          (case jobs sp of
                             None \<Rightarrow>
                               ((0, Panicked), sp, [Spawn w, Link worker, Cast worker job])
                           | Some js \<Rightarrow>
                               ((jobid, StatusOK),
                                sp\<lparr>jobs := Some (fmupd worker job js),
                                   store := (store sp)
                                     (p := tx\<lparr>tx_jobs := fmupd worker True (tx_jobs tx)\<rparr>)\<rparr>,
                                [Spawn w, Link worker, Cast worker job]))))))"

definition CancelJob :: "SagaProcess \<Rightarrow> etf_Ref \<Rightarrow> status \<times> SagaProcess \<times> effect list" where
  "CancelJob sp job = (StatusOK, sp, [])"

text \<open>\<^verbatim>\<open>SendResult\<close>. \<open>call_err\<close> is the error of the synchronous \<^verbatim>\<open>Call\<close> to the
  immediate parent (\<open>StatusOK\<close> when it succeeded).\<close>

definition SendResult ::
  "SagaProcess \<Rightarrow> etf_Ref \<Rightarrow> etf_term \<Rightarrow> status \<Rightarrow> status \<times> SagaProcess \<times> effect list" where
  "SendResult sp id' result call_err =
     (case fmlookup (txs sp) id' of
        None \<Rightarrow> (Error ''unknown transaction'', sp, [])
      | Some p \<Rightarrow>
          (let tx = store sp p in
           case tx_parents tx of
             [] \<Rightarrow> (Error ''no parent saga'', sp, [])
           | parent # rest \<Rightarrow>
               (let message = TTuple [TAtom ''$saga_result'', TPid (self sp),
                                TTuple [TRef (tx_id tx), TRef (tx_origin tx), result]]
                in if call_err \<noteq> StatusOK then (call_err, sp, [Call parent message])
                   else if \<not> TwoPhaseCommit (tx_options tx)
                   then (StatusOK, sp\<lparr>txs := fmdrop id' (txs sp)\<rparr>, [Call parent message])
                   else (StatusOK, sp, [Call parent message]))))"

definition SendInterim ::
  "SagaProcess \<Rightarrow> etf_Ref \<Rightarrow> etf_term \<Rightarrow> status \<Rightarrow> status \<times> SagaProcess \<times> effect list" where
  "SendInterim sp id' interim call_err =
     (case fmlookup (txs sp) id' of
        None \<Rightarrow> (Error ''unknown transaction'', sp, [])
      | Some p \<Rightarrow>
          (let tx = store sp p in
           case tx_parents tx of
             [] \<Rightarrow> (Error ''no parent saga'', sp, [])
           | parent # rest \<Rightarrow>
               (let message = TTuple [TAtom ''$saga_interim'', TPid (self sp),
                                TTuple [TRef (tx_id tx), TRef (tx_origin tx), interim]]
                in if call_err \<noteq> StatusOK then (call_err, sp, [Call parent message])
                   else (StatusOK, sp, [Call parent message]))))"



subsection \<open>handleSagaRequest\<close>

text \<open>The \<^verbatim>\<open>$saga_cancel\<close> reply of the admission gates:
  \<^verbatim>\<open>{$saga_cancel, Self, {Origin, TransactionID, reason}}\<close>.\<close>

definition cancel_reply :: "SagaProcess \<Rightarrow> messageSagaStep \<Rightarrow> string \<Rightarrow> etf_term" where
  "cancel_reply sp stepMessage reason =
     TTuple [TAtom ''$saga_cancel'', TPid (self sp),
       TTuple [TRef (step_Origin stepMessage), TRef (step_TransactionID stepMessage),
               TString reason]]"

text \<open>The options of a transaction that came from another saga: the defaults,
  overwritten by the entries of the options map that have the Go type the code asserts
  (\<^verbatim>\<open>int64\<close> for \<^verbatim>\<open>HopLimit\<close> and \<^verbatim>\<open>Lifespan\<close>, converted to \<^verbatim>\<open>uint\<close> bit for bit;
  \<^verbatim>\<open>bool\<close> for \<^verbatim>\<open>TwoPhaseCommit\<close>, \<^verbatim>\<open>false\<close> when the entry has another type).\<close>

definition remote_txOptions :: "(string \<times> etf_term) list \<Rightarrow> SagaTransactionOptions" where
  "remote_txOptions opts =
     \<lparr>HopLimit = (case map_of opts ''HopLimit'' of
                     Some (TInt64 hoplimit) \<Rightarrow> hoplimit
                   | _ \<Rightarrow> defaultHopLimit),
      Lifespan = (case map_of opts ''Lifespan'' of
                     Some (TInt64 lifespan) \<Rightarrow> lifespan
                   | _ \<Rightarrow> defaultLifespan),
      TwoPhaseCommit = (case map_of opts ''TwoPhaseCommit'' of
                     Some (TBool b) \<Rightarrow> b
                   | _ \<Rightarrow> False)\<rparr>"

text \<open>The case \<^verbatim>\<open>$saga_next\<close>. \<open>monref\<close> is the reference \<^verbatim>\<open>MonitorProcess(m.Pid)\<close>
  returns and \<open>cb\<close> the status \<^verbatim>\<open>HandleTxNew\<close> returns. Where the transaction is present
  with no parents, the Go code builds a fresh \<^verbatim>\<open>SagaTransaction\<close> in a local variable
  and sets its monitor; no map ever points to that object, so the state keeps nothing
  of it.\<close>

definition handle_saga_next ::
  "SagaProcess \<Rightarrow> messageSaga \<Rightarrow> messageSagaStep \<Rightarrow> etf_Ref \<Rightarrow> status
     \<Rightarrow> status \<times> SagaProcess \<times> effect list" where
  "handle_saga_next sp m stepMessage monref cb =
     (if MaxTransactions (options sp) > 0 \<and>
         len (txs sp) + 1 > sint (MaxTransactions (options sp))
      then (StatusOK, sp, [Send (ToPid (Pid m)) (cancel_reply sp stepMessage ''exceed_tx_limit'')])
      else
        (let transactionID = step_TransactionID stepMessage in
         case fmlookup (txs sp) transactionID of
           None \<Rightarrow>
             (let tx = \<lparr>tx_id = transactionID,
                        tx_options = remote_txOptions (Options stepMessage),
                        tx_origin = step_Origin stepMessage,
                        tx_monitor = monref,
                        tx_steps = fmempty, tx_jobs = fmempty, tx_arrival = 0,
                        tx_parents = Pid m # Parents stepMessage\<rparr>;
                  p = next_addr sp
              in (cb,
                  sp\<lparr>store := (store sp)(p := tx), txs := fmupd transactionID p (txs sp),
                     next_addr := Suc p\<rparr>,
                  [MonitorProcess (ToPid (Pid m)),
                   HandleTxNew transactionID (msg_Value stepMessage)]))
         | Some p \<Rightarrow>
             if length (tx_parents (store sp p)) > 0
             then (StatusOK, sp,
                   [Send (ToPid (Pid m)) (cancel_reply sp stepMessage ''loop_detected'')])
             else (cb, sp,
                   [MonitorProcess (ToPid (Pid m)),
                    HandleTxNew transactionID (msg_Value stepMessage)])))"

text \<open>The case \<^verbatim>\<open>$saga_result\<close>. The step leaves the step index before the
  transaction id is compared. With two-phase commit the step is read through
  \<^verbatim>\<open>tx.steps[step_id]\<close> and written through that pointer: a step missing there is a nil
  dereference. The status \<^verbatim>\<open>HandleTxResult\<close> returns is dropped.\<close>

definition handle_saga_result ::
  "SagaProcess \<Rightarrow> messageSagaResult \<Rightarrow> status \<times> SagaProcess \<times> effect list" where
  "handle_saga_result sp result =
     (let step_id = result_Origin result in
      case fmlookup (steps sp) step_id of
        None \<Rightarrow> (StatusOK, sp, [])
      | Some p \<Rightarrow>
          (let sp1 = sp\<lparr>steps := fmdrop step_id (steps sp)\<rparr>;
               tx = store sp p
           in if tx_id tx \<noteq> result_TransactionID result
              then (Error ''transaction id mismatch in saga result'', sp1, [])
              else if \<not> TwoPhaseCommit (tx_options tx)
              then (StatusOK,
                    sp1\<lparr>store := (store sp)
                           (p := tx\<lparr>tx_steps := fmdrop step_id (tx_steps tx)\<rparr>)\<rparr>,
                    [HandleTxResult (tx_id tx) step_id (Result result)])
              else
                (case fmlookup (tx_steps tx) step_id of
                   None \<Rightarrow> (Panicked, sp1, [])
                 | Some step \<Rightarrow>
                     (StatusOK,
                      sp1\<lparr>store := (store sp)
                             (p := tx\<lparr>tx_steps :=
                                    fmupd step_id (step\<lparr>step_done := True\<rparr>) (tx_steps tx)\<rparr>)\<rparr>,
                      [HandleTxResult (tx_id tx) step_id (Result result)]))))"

definition handle_saga_interim ::
  "SagaProcess \<Rightarrow> messageSagaResult \<Rightarrow> status \<times> SagaProcess \<times> effect list" where
  "handle_saga_interim sp result =
     (let step_id = result_Origin result in
      case fmlookup (steps sp) step_id of
        None \<Rightarrow> (StatusOK, sp, [])
      | Some p \<Rightarrow>
          (StatusOK, sp, [HandleTxInterim (tx_id (store sp p)) step_id (Result result)]))"

text \<open>\<^verbatim>\<open>handleSagaRequest\<close>: the switch on \<^verbatim>\<open>m.Request\<close>. There is no case for
  \<^verbatim>\<open>$saga_cancel\<close> (it is commented out in the source): such a request falls through to
  \<^verbatim>\<open>sagaStatusUnsupported\<close> like any other atom.\<close>

definition handleSagaRequest ::
  "SagaProcess \<Rightarrow> messageSaga \<Rightarrow> etf_Ref \<Rightarrow> status \<Rightarrow> status \<times> SagaProcess \<times> effect list" where
  "handleSagaRequest sp m monref cb =
     (if Request m = ''$saga_next'' then
        (case into_messageSagaStep (Command m) of
           None \<Rightarrow> (ErrUnsupportedRequest, sp, [])
         | Some stepMessage \<Rightarrow> handle_saga_next sp m stepMessage monref cb)
      else if Request m = ''$saga_result'' then
        (case into_messageSagaResult (Command m) of
           None \<Rightarrow> (ErrUnsupportedRequest, sp, [])
         | Some result \<Rightarrow> handle_saga_result sp result)
      else if Request m = ''$saga_interim'' then
        (case into_messageSagaResult (Command m) of
           None \<Rightarrow> (ErrUnsupportedRequest, sp, [])
         | Some result \<Rightarrow> handle_saga_interim sp result)
      else (sagaStatusUnsupported, sp, []))"

text \<open>\<^verbatim>\<open>handleSagaExit\<close>; \<open>cb\<close> is the status \<^verbatim>\<open>HandleJobFailed\<close> returns.\<close>

definition handleSagaExit ::
  "SagaProcess \<Rightarrow> etf_Pid \<Rightarrow> string \<Rightarrow> status \<Rightarrow> status \<times> SagaProcess \<times> effect list" where
  "handleSagaExit sp exit_Pid exit_Reason cb =
     (case jobs_lookup sp exit_Pid of
        None \<Rightarrow> (StatusOK, sp, [])
      | Some job \<Rightarrow>
          if exit_Reason \<noteq> ''normal''
          then (cb, sp, [HandleJobFailed (job_ID job) exit_Reason])
          else (cb, sp, [HandleJobFailed (job_ID job) ''no result'']))"

definition handleSagaDown ::
  "SagaProcess \<Rightarrow> etf_term \<Rightarrow> status \<times> SagaProcess \<times> effect list" where
  "handleSagaDown sp down = (StatusOK, sp, [])"

subsection \<open>The Server callbacks of Saga\<close>

text \<open>\<^verbatim>\<open>HandleInfo\<close>. \<open>cb\<close> is the status of the transaction or job callback the
  request reaches, \<open>cbinfo\<close> the status \<^verbatim>\<open>HandleSagaInfo\<close> returns.\<close>

definition HandleInfo ::
  "SagaProcess \<Rightarrow> etf_term \<Rightarrow> etf_Ref \<Rightarrow> status \<Rightarrow> status
     \<Rightarrow> status \<times> SagaProcess \<times> effect list" where
  "HandleInfo sp message monref cb cbinfo =
     (case message of
        TMessageExit pid reason \<Rightarrow> handleSagaExit sp pid reason cb
      | TMessageDown ref pid reason \<Rightarrow> handleSagaDown sp message
      | _ \<Rightarrow>
          (case into_messageSaga message of
             None \<Rightarrow> (cbinfo, sp, [HandleSagaInfo message])
           | Some mSaga \<Rightarrow>
               (case handleSagaRequest sp mSaga monref cb of
                  (st, sp', es) \<Rightarrow>
                    if st = StatusOK then (StatusOK, sp', es)
                    else if st = SagaStatusStop then (ServerStatusStop, sp', es)
                    else if st = sagaStatusUnsupported
                    then (cbinfo, sp', es @ [HandleSagaInfo message])
                    else (st, sp', es))))"

text \<open>\<^verbatim>\<open>HandleCall\<close>. \<open>cb\<close> is the status of the callback reached and \<open>cbvalue\<close> the
  value \<^verbatim>\<open>HandleSagaCall\<close> returns; the reply value is \<^verbatim>\<open>nil\<close> on every other path.\<close>

definition HandleCall ::
  "SagaProcess \<Rightarrow> ServerFrom \<Rightarrow> etf_term \<Rightarrow> etf_Ref \<Rightarrow> status \<Rightarrow> etf_term
     \<Rightarrow> (etf_term \<times> status) \<times> SagaProcess \<times> effect list" where
  "HandleCall sp from' message monref cb cbvalue =
     (case
        (case message of
           TJobResult pid result \<Rightarrow>
             (case jobs_lookup sp pid of
                None \<Rightarrow> (TNil, StatusOK, sp, [])
              | Some job \<Rightarrow>
                  (case fmlookup (txs sp) (job_TXID job) of
                     None \<Rightarrow> (TNil, StatusOK, jobs_delete sp pid, [])
                   | Some p \<Rightarrow>
                       (let tx = store sp p in
                        if \<not> TwoPhaseCommit (tx_options tx)
                        then (TNil, cb,
                              (jobs_delete sp pid)
                                \<lparr>store := (store sp)
                                   (p := tx\<lparr>tx_jobs := fmdrop pid (tx_jobs tx)\<rparr>)\<rparr>,
                              [HandleJobResult (job_ID job) result])
                        else (TNil, cb,
                              sp\<lparr>jobs := map_option (fmupd pid (job\<lparr>job_done := True\<rparr>))
                                           (jobs sp)\<rparr>,
                              [HandleJobResult (job_ID job) result]))))
         | TJobInterim pid interim \<Rightarrow>
             (case jobs_lookup sp pid of
                None \<Rightarrow> (TNil, StatusOK, sp, [])
              | Some job \<Rightarrow> (TNil, cb, sp, [HandleJobInterim (job_ID job) interim]))
         | _ \<Rightarrow>
             (case into_messageSaga message of
                Some mSaga \<Rightarrow>
                  (case handleSagaRequest sp mSaga monref cb of
                     (s, sp', es) \<Rightarrow> (TNil, s, sp', es))
              | None \<Rightarrow> (cbvalue, cb, sp, [HandleSagaCall from' message])))
      of (v, st, sp', es) \<Rightarrow>
        if st = StatusOK then ((v, StatusOK), sp', es)
        else if st = SagaStatusStop then ((v, ServerStatusStop), sp', es)
        else ((v, st), sp', es))"

text \<open>\<^verbatim>\<open>HandleDirect\<close>; \<open>cb\<close> is what \<^verbatim>\<open>HandleSagaDirect\<close> returns.\<close>

definition HandleDirect ::
  "SagaProcess \<Rightarrow> direct_message \<Rightarrow> etf_term \<times> status
     \<Rightarrow> (etf_term \<times> status) \<times> SagaProcess \<times> effect list" where
  "HandleDirect st message cb =
     (case message of
        sagaSetMaxTransactions mx \<Rightarrow>
          ((TNil, StatusOK), st\<lparr>options := (options st)\<lparr>MaxTransactions := mx\<rparr>\<rparr>, [])
      | DirectOther t \<Rightarrow> (cb, st, [HandleSagaDirect t]))"

definition HandleCast ::
  "SagaProcess \<Rightarrow> etf_term \<Rightarrow> status \<Rightarrow> status \<times> SagaProcess \<times> effect list" where
  "HandleCast sp message cb = (cb, sp, [HandleSagaCast message])"

subsection \<open>The Server process: Init of Saga and ProcessLoop\<close>

text \<open>
  What the loop knows of the process. \<open>trapExit\<close> is the flag of the underlying
  \<^verbatim>\<open>Process\<close> that \<^verbatim>\<open>SetTrapExit\<close> writes and \<^verbatim>\<open>TrapExit\<close> reads (the interface of
  \<^verbatim>\<open>gen/types.go\<close>; the process itself is not among the sources). \<open>State\<close> is
  \<^verbatim>\<open>process.State\<close>, here the \<^verbatim>\<open>SagaProcess\<close> once \<^verbatim>\<open>Init\<close> has set it.
\<close>

record ServerProcess =
  proc_Self :: etf_Pid
  State :: "SagaProcess option"
  trapExit :: bool
  reductions :: "64 word"

definition zero_SagaTransaction :: SagaTransaction where
  "zero_SagaTransaction =
     \<lparr>tx_id = 0,
      tx_options = \<lparr>HopLimit = 0, Lifespan = 0, TwoPhaseCommit = False\<rparr>,
      tx_origin = 0, tx_monitor = 0, tx_steps = fmempty, tx_jobs = fmempty,
      tx_arrival = 0, tx_parents = []\<rparr>"

text \<open>\<^verbatim>\<open>Saga.Init\<close>. \<open>is_SagaBehavior\<close> is the outcome of the interface assertion on the
  behavior; \<open>InitSaga\<close> is the user callback, which gets the fresh \<^verbatim>\<open>SagaProcess\<close> and
  returns the options and an error, possibly after using the process.\<close>

definition Init ::
  "ServerProcess \<Rightarrow> bool \<Rightarrow> (SagaProcess \<Rightarrow> (SagaOptions \<times> status) \<times> SagaProcess)
     \<Rightarrow> status \<times> ServerProcess" where
  "Init process is_SagaBehavior InitSaga =
     (if \<not> is_SagaBehavior then (Error ''Saga: not a SagaBehavior'', process)
      else
        (let sagaProcess =
               \<lparr>self = proc_Self process,
                options = \<lparr>MaxTransactions = 0, Worker = None\<rparr>,
                txs = fmempty, steps = fmempty, jobs = None,
                store = (\<lambda>a. zero_SagaTransaction), next_addr = 0\<rparr>
         in case InitSaga sagaProcess of
              ((opts, err), sagaProcess') \<Rightarrow>
                if err \<noteq> StatusOK then (err, process)
                else
                  (let sagaProcess'' =
                         sagaProcess'\<lparr>options := opts,
                           jobs := (if Worker opts \<noteq> None then Some fmempty
                                    else jobs sagaProcess')\<rparr>
                   in (StatusOK,
                       process\<lparr>State := Some sagaProcess'', trapExit := True\<rparr>))))"

text \<open>The case the \<^verbatim>\<open>select\<close> of \<^verbatim>\<open>ProcessLoop\<close> takes in one iteration. Go picks among
  the ready channels; the pick is the input. A direct request carries what
  \<^verbatim>\<open>behavior.HandleDirect\<close> answers.\<close>

datatype select_case =
    GracefulExit etf_Pid string
  | StopReason string
  | Mailbox etf_Pid etf_term
  | ContextDone
  | Direct direct_message "etf_term \<times> status"

text \<open>What the loop does. \<open>Terminate r\<close> is the call \<^verbatim>\<open>behavior.Terminate(gsp, r)\<close>.
  \<open>GoHandleInfo m\<close> is the goroutine that takes the state lock and calls
  \<^verbatim>\<open>behavior.HandleInfo(gsp, m)\<close>; \<open>GoHandleCast m\<close> does so with \<^verbatim>\<open>HandleCast\<close>; \<open>GoHandleCall m\<close>
  is the goroutine of a \<^verbatim>\<open>$gen_call\<close> tuple \<open>m\<close>, which checks the shape of \<open>m\<close>, calls
  \<^verbatim>\<open>HandleCall\<close> and replies; \<open>GoPanic\<close> is a goroutine that panics before it reaches the
  callback. When a callback asks to stop or a goroutine panics, the goroutine puts the
  reason on the \<^verbatim>\<open>stop\<close> channel, which the loop reads as \<open>StopReason\<close>. \<open>Started\<close> is the
  send on the \<^verbatim>\<open>started\<close> channel before the loop (on \<^verbatim>\<open>p.ready\<close> in \<^verbatim>\<open>GenServer.Loop\<close>).
  \<open>ReplyChannel m\<close> is the send \<^verbatim>\<open>p.reply <- m\<close> of \<^verbatim>\<open>GenServer.Loop\<close>.\<close>

datatype loop_effect =
    Started
  | Terminate string
  | GoHandleCall etf_term
  | GoHandleCast etf_term
  | GoHandleInfo etf_term
  | GoPanic
  | PutSyncReply etf_Ref etf_term
  | ReplyChannel etf_term
  | DirectReply etf_term status

datatype loop_result = Continue | Return string | Crash

text \<open>The dispatch of a message on its shape, after \<^verbatim>\<open>gsp.reductions++\<close>.
  \<^verbatim>\<open>m.Element(i)\<close> indexes the tuple from 1 and panics out of range: on the loop's own
  goroutine for the tag of an empty tuple, inside the goroutine (where it is recovered)
  for the payload of a one-element \<^verbatim>\<open>$gen_cast\<close>.\<close>

definition dispatch :: "etf_term \<Rightarrow> loop_result \<times> loop_effect list" where
  "dispatch message =
     (case message of
        TTuple m \<Rightarrow>
          (case m of
             [] \<Rightarrow> (Crash, [])
           | mtag # rest \<Rightarrow>
               (case mtag of
                  TAtom a \<Rightarrow>
                    if a = ''$gen_call'' then (Continue, [GoHandleCall message])
                    else if a = ''$gen_cast'' then
                      (case rest of
                         [] \<Rightarrow> (Continue, [GoPanic])
                       | payload # rest' \<Rightarrow> (Continue, [GoHandleCast payload]))
                    else (Continue, [GoHandleInfo message])
                | TRef ref \<Rightarrow>
                    (case rest of
                       [payload] \<Rightarrow> (Continue, [PutSyncReply ref payload])
                     | _ \<Rightarrow> (Continue, [GoHandleInfo message]))
                | _ \<Rightarrow> (Continue, [GoHandleInfo message])))
      | _ \<Rightarrow> (Continue, [GoHandleInfo message]))"

text \<open>One iteration of the \<^verbatim>\<open>for { select { ... } }\<close> of \<^verbatim>\<open>Server.ProcessLoop\<close>.\<close>

definition ProcessLoop_step ::
  "ServerProcess \<Rightarrow> select_case \<Rightarrow> loop_result \<times> ServerProcess \<times> loop_effect list" where
  "ProcessLoop_step gsp c =
     (case c of
        GracefulExit sender reason \<Rightarrow>
          if \<not> trapExit gsp then (Return reason, gsp, [Terminate reason])
          else
            (case dispatch (TMessageExit sender reason) of
               (r, es) \<Rightarrow> (r, gsp\<lparr>reductions := reductions gsp + 1\<rparr>, es))
      | StopReason reason \<Rightarrow> (Return reason, gsp, [Terminate reason])
      | Mailbox fromPid message \<Rightarrow>
          (case dispatch message of
             (r, es) \<Rightarrow> (r, gsp\<lparr>reductions := reductions gsp + 1\<rparr>, es))
      | ContextDone \<Rightarrow> (Return ''kill'', gsp, [Terminate ''kill''])
      | Direct message answer \<Rightarrow>
          (case answer of
             (reply, err) \<Rightarrow>
               if err \<noteq> StatusOK then (Continue, gsp, [DirectReply TNil err])
               else (Continue, gsp, [DirectReply reply StatusOK])))"

text \<open>The loop over the cases the \<^verbatim>\<open>select\<close> takes, one after the other. It ends with
  \<open>Return\<close> when an iteration returns; \<open>Continue\<close> says the loop is still waiting when
  the cases run out.\<close>

fun ProcessLoop_run ::
  "ServerProcess \<Rightarrow> select_case list \<Rightarrow> loop_result \<times> ServerProcess \<times> loop_effect list" where
  "ProcessLoop_run gsp [] = (Continue, gsp, [])"
| "ProcessLoop_run gsp (c # cs) =
     (case ProcessLoop_step gsp c of
        (Continue, gsp', es) \<Rightarrow>
          (case ProcessLoop_run gsp' cs of (r, gsp'', es') \<Rightarrow> (r, gsp'', es @ es'))
      | (r, gsp', es) \<Rightarrow> (r, gsp', es))"

text \<open>\<^verbatim>\<open>Server.ProcessLoop\<close>: the interface assertion on the behavior, then the loop.\<close>

definition ProcessLoop ::
  "ServerProcess \<Rightarrow> bool \<Rightarrow> select_case list
     \<Rightarrow> loop_result \<times> ServerProcess \<times> loop_effect list" where
  "ProcessLoop ps is_ServerBehavior cs =
     (if \<not> is_ServerBehavior then (Return ''ProcessLoop: not a ServerBehavior'', ps, [])
      else (case ProcessLoop_run ps cs of (r, gsp, es) \<Rightarrow> (r, gsp, Started # es)))"

subsection \<open>The earlier loop: GenServer.Loop\<close>

text \<open>
  \<^verbatim>\<open>GenServer.Loop\<close> of package \<^verbatim>\<open>ergo\<close> has the same \<^verbatim>\<open>select\<close> over the same five
  sources. What the loop itself keeps of the process is the counter \<^verbatim>\<open>p.reductions\<close>;
  \<^verbatim>\<open>p.state\<close> is written by the callback goroutines only. A graceful exit always
  terminates (there is no trap-exit here), a tuple whose tag is a reference goes to
  the channel \<^verbatim>\<open>p.reply\<close> whatever its length, and a direct request is answered with
  \<^verbatim>\<open>ErrUnsupportedRequest\<close> by \<^verbatim>\<open>handleDirect\<close> (when it carries a reply channel).
\<close>

record GenServerProcess =
  gs_reductions :: "64 word"

definition GenServer_dispatch :: "etf_term \<Rightarrow> loop_result \<times> loop_effect list" where
  "GenServer_dispatch message =
     (case message of
        TTuple m \<Rightarrow>
          (case m of
             [] \<Rightarrow> (Crash, [])
           | mtag # rest \<Rightarrow>
               (case mtag of
                  TAtom a \<Rightarrow>
                    if a = ''$gen_call'' then (Continue, [GoHandleCall message])
                    else if a = ''$gen_cast'' then
                      (case rest of
                         [] \<Rightarrow> (Continue, [GoPanic])
                       | payload # rest' \<Rightarrow> (Continue, [GoHandleCast payload]))
                    else (Continue, [GoHandleInfo message])
                | TRef ref \<Rightarrow> (Continue, [ReplyChannel message])
                | _ \<Rightarrow> (Continue, [GoHandleInfo message])))
      | _ \<Rightarrow> (Continue, [GoHandleInfo message]))"

text \<open>One iteration of the \<^verbatim>\<open>for { select { ... } }\<close> of \<^verbatim>\<open>GenServer.Loop\<close>. The cases of
  the graceful exit and of the \<^verbatim>\<open>stop\<close> channel call \<^verbatim>\<open>Terminate\<close> and return the
  reason; the case \<^verbatim>\<open><-p.Context.Done()\<close> is the single statement \<^verbatim>\<open>return "kill"\<close>.\<close>

definition GenServer_Loop_step ::
  "GenServerProcess \<Rightarrow> select_case
     \<Rightarrow> loop_result \<times> GenServerProcess \<times> loop_effect list" where
  "GenServer_Loop_step p c =
     (case c of
        GracefulExit sender reason \<Rightarrow> (Return reason, p, [Terminate reason])
      | StopReason reason \<Rightarrow> (Return reason, p, [Terminate reason])
      | Mailbox fromPid message \<Rightarrow>
          (case GenServer_dispatch message of
             (r, es) \<Rightarrow> (r, p\<lparr>gs_reductions := gs_reductions p + 1\<rparr>, es))
      | ContextDone \<Rightarrow> (Return ''kill'', p, [])
      | Direct message answer \<Rightarrow> (Continue, p, [DirectReply TNil ErrUnsupportedRequest]))"

fun GenServer_Loop_run ::
  "GenServerProcess \<Rightarrow> select_case list
     \<Rightarrow> loop_result \<times> GenServerProcess \<times> loop_effect list" where
  "GenServer_Loop_run p [] = (Continue, p, [])"
| "GenServer_Loop_run p (c # cs) =
     (case GenServer_Loop_step p c of
        (Continue, p', es) \<Rightarrow>
          (case GenServer_Loop_run p' cs of (r, p'', es') \<Rightarrow> (r, p'', es @ es'))
      | (r, p', es) \<Rightarrow> (r, p', es))"

text \<open>\<^verbatim>\<open>GenServer.Loop\<close>: after the behaviour's \<^verbatim>\<open>Init\<close> and the send on \<^verbatim>\<open>p.ready\<close>, the
  loop.\<close>

definition GenServer_Loop ::
  "GenServerProcess \<Rightarrow> select_case list
     \<Rightarrow> loop_result \<times> GenServerProcess \<times> loop_effect list" where
  "GenServer_Loop p cs =
     (case GenServer_Loop_run p cs of (r, p', es) \<Rightarrow> (r, p', Started # es))"

subsection \<open>The operations on a Saga, and runs\<close>

text \<open>Every entry point of \<^verbatim>\<open>gen/saga.go\<close> that reads or writes the maps of a
  \<^verbatim>\<open>SagaProcess\<close>, with what the environment answers: the methods user code calls and
  the callbacks the Server loop calls.\<close>

datatype saga_op =
    OpStartTransaction string SagaTransactionOptions etf_term etf_Ref "64 word" "64 word" etf_Ref
  | OpCancelTransaction etf_Ref string
  | OpNext etf_Ref SagaStep "64 word" etf_Ref
  | OpStartJob etf_Ref "64 word" etf_term "status + etf_Pid" etf_Ref status
  | OpCancelJob etf_Ref
  | OpSendResult etf_Ref etf_term status
  | OpSendInterim etf_Ref etf_term status
  | OpHandleInfo etf_term etf_Ref status status
  | OpHandleCall ServerFrom etf_term etf_Ref status etf_term
  | OpHandleCast etf_term status
  | OpHandleDirect direct_message "etf_term \<times> status"

definition exec :: "SagaProcess \<Rightarrow> saga_op \<Rightarrow> SagaProcess" where
  "exec sp op =
     (case op of
        OpStartTransaction name opts v newid now1 now2 ref \<Rightarrow>
          fst (snd (StartTransaction sp name opts v newid now1 now2 ref))
      | OpCancelTransaction id' reason \<Rightarrow> fst (CancelTransaction sp id' reason)
      | OpNext id' step now ref \<Rightarrow> fst (snd (Next sp id' step now ref))
      | OpStartJob id' timeout v spawned jobid cast_err \<Rightarrow>
          fst (snd (StartJob sp id' timeout v spawned jobid cast_err))
      | OpCancelJob job \<Rightarrow> fst (snd (CancelJob sp job))
      | OpSendResult id' result call_err \<Rightarrow> fst (snd (SendResult sp id' result call_err))
      | OpSendInterim id' interim call_err \<Rightarrow> fst (snd (SendInterim sp id' interim call_err))
      | OpHandleInfo message monref cb cbinfo \<Rightarrow>
          fst (snd (HandleInfo sp message monref cb cbinfo))
      | OpHandleCall from' message monref cb cbvalue \<Rightarrow>
          fst (snd (HandleCall sp from' message monref cb cbvalue))
      | OpHandleCast message cb \<Rightarrow> fst (snd (HandleCast sp message cb))
      | OpHandleDirect message cb \<Rightarrow> fst (snd (HandleDirect sp message cb)))"

definition run :: "SagaProcess \<Rightarrow> saga_op list \<Rightarrow> SagaProcess" where
  "run sp ops = foldl exec sp ops"

text \<open>The step index is sound when every step id in it points to an allocated
  transaction object that has the step among its steps, and every entry of the
  transaction map points to an allocated object.\<close>

definition index_ok :: "SagaProcess \<Rightarrow> bool" where
  "index_ok sp =
     (fmpred (\<lambda>s p. p < next_addr sp \<and> s |\<in>| fmdom (tx_steps (store sp p))) (steps sp) \<and>
      fmpred (\<lambda>i p. p < next_addr sp) (txs sp))"


subsection \<open>Concrete processes and messages\<close>

text \<open>A process whose \<^verbatim>\<open>InitSaga\<close> returns the zero options, and the Saga it becomes.\<close>

definition ex_process :: ServerProcess where
  "ex_process = \<lparr>proc_Self = 4, State = None, trapExit = False, reductions = 0\<rparr>"

definition ex_InitSaga :: "SagaProcess \<Rightarrow> (SagaOptions \<times> status) \<times> SagaProcess" where
  "ex_InitSaga sp = ((\<lparr>MaxTransactions = 0, Worker = None\<rparr>, StatusOK), sp)"

definition ex_saga :: SagaProcess where
  "ex_saga = \<lparr>self = 4, options = \<lparr>MaxTransactions = 0, Worker = None\<rparr>,
      txs = fmempty, steps = fmempty, jobs = None,
      store = (\<lambda>a. zero_SagaTransaction), next_addr = 0\<rparr>"

text \<open>Saga 3 forwards transaction 20, which came to it through sagas 1 and 2, with the
  options \<open>hoplimit\<close> and \<open>lifespan\<close>.\<close>

definition ex_next :: "64 word \<Rightarrow> 64 word \<Rightarrow> etf_term" where
  "ex_next hoplimit lifespan =
     TTuple [TAtom ''$saga_next'', TPid 3,
       TTuple [TRef 10, TRef 20, TString ''x'', TList [TPid 2, TPid 1],
         TMap [(''HopLimit'', TInt64 hoplimit), (''Lifespan'', TInt64 lifespan),
               (''TwoPhaseCommit'', TBool False)]]]"

definition ex_messageSaga :: messageSaga where
  "ex_messageSaga =
     \<lparr>Request = ''$saga_next'', Pid = 3,
      Command = TTuple [TRef 10, TRef 20, TString ''x'', TList [TPid 2, TPid 1],
         TMap [(''HopLimit'', TInt64 2), (''Lifespan'', TInt64 60),
               (''TwoPhaseCommit'', TBool False)]]\<rparr>"

definition ex_stepMessage :: messageSagaStep where
  "ex_stepMessage =
     \<lparr>step_Origin = 10, step_TransactionID = 20, msg_Value = TString ''x'',
      Parents = [2, 1],
      Options = [(''HopLimit'', TInt64 2), (''Lifespan'', TInt64 60),
                 (''TwoPhaseCommit'', TBool False)]\<rparr>"

text \<open>Transaction 20 as its originator holds it (no parents) and as a saga down the
  chain holds it (parents 3, 2, 1), with the two-phase-commit flag \<open>b\<close> and the steps
  \<open>ss\<close>.\<close>

definition ex_origin_tx :: SagaTransaction where
  "ex_origin_tx =
     \<lparr>tx_id = 20,
      tx_options = \<lparr>HopLimit = 65535, Lifespan = 60, TwoPhaseCommit = False\<rparr>,
      tx_origin = 0, tx_monitor = 0, tx_steps = fmempty, tx_jobs = fmempty,
      tx_arrival = 1700000000, tx_parents = []\<rparr>"

definition ex_originator :: SagaProcess where
  "ex_originator =
     \<lparr>self = 4, options = \<lparr>MaxTransactions = 0, Worker = None\<rparr>,
      txs = fmupd 20 0 fmempty, steps = fmempty, jobs = None,
      store = (\<lambda>a. ex_origin_tx), next_addr = 1\<rparr>"

definition ex_step :: SagaStep where
  "ex_step = \<lparr>step_Saga = ToPid 5, step_Value = TString ''y'', step_Timeout = 0,
              step_done = False\<rparr>"

definition ex_parent_tx :: "bool \<Rightarrow> (etf_Ref, SagaStep) fmap \<Rightarrow> SagaTransaction" where
  "ex_parent_tx b ss =
     \<lparr>tx_id = 20,
      tx_options = \<lparr>HopLimit = 65535, Lifespan = 60, TwoPhaseCommit = b\<rparr>,
      tx_origin = 10, tx_monitor = 77, tx_steps = ss, tx_jobs = fmempty,
      tx_arrival = 1700000000, tx_parents = [3, 2, 1]\<rparr>"

text \<open>A saga that holds transaction 20 and has sent no step, and one that has sent
  step 30 to process 5.\<close>

definition ex_holder :: SagaProcess where
  "ex_holder =
     \<lparr>self = 4, options = \<lparr>MaxTransactions = 0, Worker = None\<rparr>,
      txs = fmupd 20 0 fmempty, steps = fmempty, jobs = None,
      store = (\<lambda>a. ex_parent_tx False fmempty), next_addr = 1\<rparr>"

definition ex_stepper :: "bool \<Rightarrow> SagaProcess" where
  "ex_stepper b =
     \<lparr>self = 4, options = \<lparr>MaxTransactions = 0, Worker = None\<rparr>,
      txs = fmupd 20 0 fmempty, steps = fmupd 30 0 fmempty, jobs = None,
      store = (\<lambda>a. ex_parent_tx b (fmupd 30 ex_step fmempty)), next_addr = 1\<rparr>"

definition ex_result :: "etf_Ref \<Rightarrow> messageSaga" where
  "ex_result txref =
     \<lparr>Request = ''$saga_result'', Pid = 5,
      Command = TTuple [TRef txref, TRef 30, TString ''y-ok'']\<rparr>"

definition ex_cancel :: etf_term where
  "ex_cancel =
     TTuple [TAtom ''$saga_cancel'', TPid 3, TTuple [TRef 20, TRef 10, TString ''stop'']]"

text \<open>A saga with a worker behavior and one registered job, run by worker 8.\<close>

definition ex_job :: SagaJob where
  "ex_job = \<lparr>job_ID = 40, job_TXID = 20, job_Value = TString ''work'', job_Timeout = 0,
             job_saga = 4, job_commit = False, job_worker = 8, job_done = False\<rparr>"

definition ex_employer :: SagaProcess where
  "ex_employer =
     \<lparr>self = 4, options = \<lparr>MaxTransactions = 0, Worker = Some ''worker''\<rparr>,
      txs = fmupd 20 0 fmempty, steps = fmempty,
      jobs = Some (fmupd 8 ex_job fmempty),
      store = (\<lambda>a. (ex_parent_tx False fmempty)\<lparr>tx_jobs := fmupd 8 True fmempty\<rparr>),
      next_addr = 1\<rparr>"

text \<open>The message of \<open>ex_next\<close> as \<^verbatim>\<open>Next\<close> builds it, with the hop limit a \<^verbatim>\<open>uint\<close>.\<close>

definition ex_next_uint :: "64 word \<Rightarrow> 64 word \<Rightarrow> etf_term" where
  "ex_next_uint hoplimit lifespan =
     TTuple [TAtom ''$saga_next'', TPid 3,
       TTuple [TRef 10, TRef 20, TString ''x'', TList [TPid 2, TPid 1],
         TMap [(''HopLimit'', TUint hoplimit), (''Lifespan'', TInt64 lifespan),
               (''TwoPhaseCommit'', TBool False)]]]"

definition ex_messageSaga_uint :: messageSaga where
  "ex_messageSaga_uint =
     \<lparr>Request = ''$saga_next'', Pid = 3,
      Command = TTuple [TRef 10, TRef 20, TString ''x'', TList [TPid 2, TPid 1],
         TMap [(''HopLimit'', TUint 2), (''Lifespan'', TInt64 60),
               (''TwoPhaseCommit'', TBool False)]]\<rparr>"

definition ex_stepMessage_uint :: messageSagaStep where
  "ex_stepMessage_uint =
     \<lparr>step_Origin = 10, step_TransactionID = 20, msg_Value = TString ''x'',
      Parents = [2, 1],
      Options = [(''HopLimit'', TUint 2), (''Lifespan'', TInt64 60),
                 (''TwoPhaseCommit'', TBool False)]\<rparr>"

text \<open>States reached by runs from the fresh Saga. \<open>ex_forwarder\<close>: the Saga has admitted
  transaction 20 from saga 3 and sent step 30 to process 5. \<open>ex_started h\<close>: the Saga
  has started transaction 20 itself at second 1700000000 with hop limit \<open>h\<close> and
  lifespan 60; \<^verbatim>\<open>StartTransaction\<close> has sent the first step, 25, to the Saga
  itself.\<close>

definition ex_forwarder :: SagaProcess where
  "ex_forwarder =
     run ex_saga
       [OpHandleInfo (ex_next 5 2000000000) 77 StatusOK StatusOK,
        OpNext 20 ex_step 1700000030 30]"


definition ex_gs_process :: GenServerProcess where
  "ex_gs_process = \<lparr>gs_reductions = 0\<rparr>"

section \<open>Properties\<close>

subsection \<open>Shared lemmas\<close>

lemma len_fmempty [simp]: "len fmempty = 0"
  by (simp add: len_def)

lemma len_fmupd:
  "len (fmupd k v m) = (if k |\<in>| fmdom m then len m else len m + 1)"
  by (simp add: len_def fcard_finsert_if)

lemma HandleInfo_other:
  assumes "\<forall>a b. message \<noteq> TMessageExit a b" and "\<forall>a b c. message \<noteq> TMessageDown a b c"
  shows "HandleInfo sp message monref cb cbinfo =
     (case into_messageSaga message of
        None \<Rightarrow> (cbinfo, sp, [HandleSagaInfo message])
      | Some mSaga \<Rightarrow>
          (case handleSagaRequest sp mSaga monref cb of
             (st, sp', es) \<Rightarrow>
               if st = StatusOK then (StatusOK, sp', es)
               else if st = SagaStatusStop then (ServerStatusStop, sp', es)
               else if st = sagaStatusUnsupported
               then (cbinfo, sp', es @ [HandleSagaInfo message])
               else (st, sp', es)))"
  using assms by (cases message; hypsubst; simp add: HandleInfo_def)

lemma HandleCall_other:
  assumes "\<forall>a b. message \<noteq> TJobResult a b" and "\<forall>a b. message \<noteq> TJobInterim a b"
  shows "HandleCall sp from' message monref cb cbvalue =
     (case
        (case into_messageSaga message of
           Some mSaga \<Rightarrow>
             (case handleSagaRequest sp mSaga monref cb of
                (s, sp', es) \<Rightarrow> (TNil, s, sp', es))
         | None \<Rightarrow> (cbvalue, cb, sp, [HandleSagaCall from' message]))
      of (v, st, sp', es) \<Rightarrow>
        if st = StatusOK then ((v, StatusOK), sp', es)
        else if st = SagaStatusStop then ((v, ServerStatusStop), sp', es)
        else ((v, st), sp', es))"
  using assms by (cases message; hypsubst; simp add: HandleCall_def)

lemma into_messageSaga_shape:
  assumes "into_messageSaga message = Some m"
  shows "(\<forall>a b. message \<noteq> TMessageExit a b) \<and> (\<forall>a b c. message \<noteq> TMessageDown a b c)"
  using assms by (auto simp: into_messageSaga_def)

lemma ex_next_decodes:
  "into_messageSaga (ex_next h l) =
     Some \<lparr>Request = ''$saga_next'', Pid = 3,
           Command = TTuple [TRef 10, TRef 20, TString ''x'', TList [TPid 2, TPid 1],
             TMap [(''HopLimit'', TInt64 h), (''Lifespan'', TInt64 l),
                   (''TwoPhaseCommit'', TBool False)]]\<rparr>"
  by (simp add: into_messageSaga_def ex_next_def)

lemma ex_next_not_struct:
  "(\<forall>a b. ex_next h l \<noteq> TMessageExit a b) \<and> (\<forall>a b c. ex_next h l \<noteq> TMessageDown a b c)"
  by (simp add: ex_next_def)

lemma CancelTransaction_state: "fst (CancelTransaction sp i r) = sp"
  by (simp add: CancelTransaction_def Let_def split: option.splits)

lemma SendInterim_state: "fst (snd (SendInterim sp i v e)) = sp"
  by (simp add: SendInterim_def Let_def split: option.splits list.splits)

lemma ProcessLoop_run_append:
  "ProcessLoop_run gsp cs = (Continue, gsp', es) \<Longrightarrow>
   ProcessLoop_run gsp (cs @ cs') =
     (case ProcessLoop_run gsp' cs' of (r, g, es') \<Rightarrow> (r, g, es @ es'))"
proof (induction cs arbitrary: gsp es)
  case Nil
  then show ?case by (simp split: prod.splits)
next
  case (Cons c cs)
  obtain r g e where step: "ProcessLoop_step gsp c = (r, g, e)"
    by (cases "ProcessLoop_step gsp c") auto
  show ?case
  proof (cases r)
    case Continue
    obtain r2 g2 e2 where tail: "ProcessLoop_run g cs = (r2, g2, e2)"
      by (cases "ProcessLoop_run g cs") auto
    with Cons.prems step Continue have "r2 = Continue" "g2 = gsp'" "es = e @ e2"
      by auto
    with Cons.IH[of g e2] tail have
      "ProcessLoop_run g (cs @ cs') =
         (case ProcessLoop_run gsp' cs' of (r, g, es') \<Rightarrow> (r, g, e2 @ es'))"
      by simp
    with step Continue \<open>es = e @ e2\<close> show ?thesis
      by (simp split: prod.splits)
  next
    case (Return x)
    with Cons.prems step show ?thesis by simp
  next
    case Crash
    with Cons.prems step show ?thesis by simp
  qed
qed

subsection \<open>The step index stays sound\<close>

text \<open>Every operation keeps the step index sound, so it is sound in every state a
  Saga reaches from empty maps.\<close>

lemma index_ok_iff:
  "index_ok sp \<longleftrightarrow>
     (\<forall>s p. fmlookup (steps sp) s = Some p \<longrightarrow>
        p < next_addr sp \<and> fmlookup (tx_steps (store sp p)) s \<noteq> None) \<and>
     (\<forall>i p. fmlookup (txs sp) i = Some p \<longrightarrow> p < next_addr sp)"
  by (auto simp: index_ok_def fmpred_iff fmlookup_dom_iff)

lemma index_ok_Next: "index_ok sp \<Longrightarrow> index_ok (fst (snd (Next sp i step now ref)))"
  unfolding index_ok_iff
  by (auto simp: Next_def CancelTransaction_def Let_def split: option.splits if_splits)

lemma index_ok_alloc:
  "index_ok sp \<Longrightarrow>
   index_ok (sp\<lparr>store := (store sp)(next_addr sp := tx),
               txs := fmupd i (next_addr sp) (txs sp),
               next_addr := Suc (next_addr sp)\<rparr>)"
  unfolding index_ok_iff by (auto simp: less_Suc_eq)

lemma index_ok_StartTransaction:
  "index_ok sp \<Longrightarrow>
   index_ok (fst (snd (StartTransaction sp name opts v newid now1 now2 ref)))"
  apply (simp only: StartTransaction_def Let_def case_prod_beta fst_conv snd_conv)
  apply (rule index_ok_Next)
  apply (rule index_ok_alloc)
  apply assumption
  done

lemma index_ok_StartJob:
  "index_ok sp \<Longrightarrow> index_ok (fst (snd (StartJob sp i timeout v spawned jobid cast_err)))"
  unfolding index_ok_iff
  by (auto simp: StartJob_def Let_def split: option.splits sum.splits if_splits)

lemma index_ok_SendResult:
  "index_ok sp \<Longrightarrow> index_ok (fst (snd (SendResult sp i v e)))"
  unfolding index_ok_iff
  by (auto simp: SendResult_def Let_def split: option.splits list.splits if_splits)

lemma index_ok_handleSagaRequest:
  "index_ok sp \<Longrightarrow> index_ok (fst (snd (handleSagaRequest sp m monref cb)))"
  unfolding index_ok_iff
  by (auto simp: handleSagaRequest_def handle_saga_next_def handle_saga_result_def
      handle_saga_interim_def Let_def less_Suc_eq split: option.splits if_splits)

lemma index_ok_jobs_delete: "index_ok (jobs_delete sp pid) = index_ok sp"
  by (simp add: index_ok_iff jobs_delete_def split: option.splits)

lemma index_ok_HandleInfo:
  assumes "index_ok sp"
  shows "index_ok (fst (snd (HandleInfo sp message monref cb cbinfo)))"
proof -
  consider (exit) a b where "message = TMessageExit a b"
    | (down) a b c where "message = TMessageDown a b c"
    | (other) "\<forall>a b. message \<noteq> TMessageExit a b" "\<forall>a b c. message \<noteq> TMessageDown a b c"
    by blast
  then show ?thesis
  proof cases
    case exit
    with assms show ?thesis
      by (simp add: HandleInfo_def handleSagaExit_def split: option.splits)
  next
    case down
    with assms show ?thesis by (simp add: HandleInfo_def handleSagaDown_def)
  next
    case other
    show ?thesis
    proof (cases "into_messageSaga message")
      case None
      with assms other show ?thesis by (simp add: HandleInfo_other)
    next
      case (Some mSaga)
      from index_ok_handleSagaRequest[OF assms, of mSaga monref cb] Some other show ?thesis
        by (auto simp: HandleInfo_other split: prod.splits)
    qed
  qed
qed

lemma index_ok_HandleCall:
  assumes "index_ok sp"
  shows "index_ok (fst (snd (HandleCall sp from' message monref cb cbvalue)))"
proof -
  consider (result) a b where "message = TJobResult a b"
    | (interim) a b where "message = TJobInterim a b"
    | (other) "\<forall>a b. message \<noteq> TJobResult a b" "\<forall>a b. message \<noteq> TJobInterim a b"
    by blast
  then show ?thesis
  proof cases
    case result
    with assms show ?thesis
      unfolding index_ok_iff
      by (auto simp: HandleCall_def jobs_delete_def Let_def split: option.splits if_splits)
  next
    case interim
    with assms show ?thesis
      by (simp add: HandleCall_def split: option.splits)
  next
    case other
    show ?thesis
    proof (cases "into_messageSaga message")
      case None
      with assms other show ?thesis by (simp add: HandleCall_other)
    next
      case (Some mSaga)
      from index_ok_handleSagaRequest[OF assms, of mSaga monref cb] Some other show ?thesis
        by (auto simp: HandleCall_other split: prod.splits)
    qed
  qed
qed

lemma index_ok_exec: "index_ok sp \<Longrightarrow> index_ok (exec sp op)"
proof (cases op)
  case (OpHandleDirect message cb)
  assume "index_ok sp"
  with OpHandleDirect show ?thesis
    by (auto simp: exec_def HandleDirect_def index_ok_iff split: direct_message.splits)
qed (simp_all add: exec_def index_ok_Next index_ok_StartTransaction index_ok_StartJob
      index_ok_SendResult index_ok_HandleInfo index_ok_HandleCall CancelTransaction_state
      CancelJob_def SendInterim_state HandleCast_def)

lemma index_ok_run: "index_ok sp \<Longrightarrow> index_ok (run sp ops)"
  unfolding run_def by (induction ops arbitrary: sp) (simp_all add: index_ok_exec)

lemma index_ok_known_step:
  "index_ok sp \<Longrightarrow> fmlookup (steps sp) s = Some p \<Longrightarrow>
   \<exists>step. fmlookup (tx_steps (store sp p)) s = Some step"
  by (auto simp: index_ok_iff)

lemma index_ok_fresh: "steps sp = fmempty \<Longrightarrow> txs sp = fmempty \<Longrightarrow> index_ok sp"
  by (simp add: index_ok_iff)

lemma saga_result_never_panics:
  assumes "index_ok sp"
  shows "fst (handle_saga_result sp result) \<noteq> Panicked"
proof (cases "fmlookup (steps sp) (result_Origin result)")
  case None
  then show ?thesis by (simp add: handle_saga_result_def)
next
  case (Some p)
  from index_ok_known_step[OF assms Some] obtain step where
    "fmlookup (tx_steps (store sp p)) (result_Origin result) = Some step" ..
  with Some show ?thesis by (simp add: handle_saga_result_def Let_def)
qed

subsection \<open>Admission of \<^verbatim>\<open>$saga_next\<close>: hop limit (C1)\<close>

text \<open>
  C1, counterexample. Saga 4 holds no transaction and has no transaction limit. It
  receives \<^verbatim>\<open>$saga_next\<close> from saga 3 for transaction 20 with \<^verbatim>\<open>HopLimit\<close> 2 and the
  incoming parents 2 and 1, so the hop count of the claim is 3. The code sends no
  \<^verbatim>\<open>$saga_cancel\<close>: it stores the transaction, installs the monitor and invokes
  \<^verbatim>\<open>HandleTxNew\<close>.
\<close>

theorem admission_hop_limit_counterexample:
  "length (Parents ex_stepMessage) + 1 > 2 \<and>
   (case HandleInfo ex_saga (ex_next 2 60) 77 StatusOK StatusOK of
      (st, sp', es) \<Rightarrow>
        st = StatusOK \<and>
        fmlookup (txs sp') 20 = Some 0 \<and>
        HopLimit (tx_options (store sp' 0)) = 2 \<and>
        tx_parents (store sp' 0) = [3, 2, 1] \<and>
        es = [MonitorProcess (ToPid 3), HandleTxNew 20 (TString ''x'')])"
  by (simp add: HandleInfo_other ex_next_not_struct ex_next_decodes ex_stepMessage_def
      ex_saga_def handleSagaRequest_def into_messageSagaStep_def handle_saga_next_def
      remote_txOptions_def Let_def)

text \<open>
  C1, as amended. Admission of \<^verbatim>\<open>$saga_next\<close> has no hop-limit gate. No run of
  \<^verbatim>\<open>handleSagaRequest\<close> sends a \<^verbatim>\<open>$saga_cancel\<close> with the reason \<^verbatim>\<open>exceed_hop_limit\<close>.
  A \<^verbatim>\<open>$saga_next\<close> that passes the capacity gate and whose transaction is not in the
  map is admitted whatever the number of incoming parents and the \<^verbatim>\<open>HopLimit\<close> entry
  are: the transaction is stored with the sender in front of the incoming parents,
  the sender is monitored and \<^verbatim>\<open>HandleTxNew\<close> is invoked. The options stored are read
  from the options map of the message by Go type: \<^verbatim>\<open>HopLimit\<close> and \<^verbatim>\<open>Lifespan\<close> are the
  entries when these are \<^verbatim>\<open>int64\<close> values and the defaults 65535 and 60 otherwise,
  \<^verbatim>\<open>TwoPhaseCommit\<close> is the entry when it is a \<^verbatim>\<open>bool\<close> and false otherwise.
\<close>

theorem admission_has_no_hop_gate:
  assumes "Request m = ''$saga_next''"
    and "into_messageSagaStep (Command m) = Some stepMessage"
    and "\<not> (MaxTransactions (options sp) > 0 \<and>
            len (txs sp) + 1 > sint (MaxTransactions (options sp)))"
    and "fmlookup (txs sp) (step_TransactionID stepMessage) = None"
  shows "Send d (TTuple [TAtom ''$saga_cancel'', TPid q,
                   TTuple [TRef a, TRef b, TString ''exceed_hop_limit'']])
           \<notin> set (snd (snd (handleSagaRequest sp' m' monref' cb')))
       \<and> (case handleSagaRequest sp m monref cb of
            (st, sp', es) \<Rightarrow>
              st = cb \<and>
              es = [MonitorProcess (ToPid (Pid m)),
                    HandleTxNew (step_TransactionID stepMessage) (msg_Value stepMessage)] \<and>
              fmlookup (txs sp') (step_TransactionID stepMessage) = Some (next_addr sp) \<and>
              tx_parents (store sp' (next_addr sp)) = Pid m # Parents stepMessage \<and>
              tx_options (store sp' (next_addr sp)) =
                \<lparr>HopLimit =
                   (case map_of (Options stepMessage) ''HopLimit'' of
                      Some (TInt64 hoplimit) \<Rightarrow> hoplimit
                    | _ \<Rightarrow> 65535),
                 Lifespan =
                   (case map_of (Options stepMessage) ''Lifespan'' of
                      Some (TInt64 lifespan) \<Rightarrow> lifespan
                    | _ \<Rightarrow> 60),
                 TwoPhaseCommit =
                   (case map_of (Options stepMessage) ''TwoPhaseCommit'' of
                      Some (TBool twophase) \<Rightarrow> twophase
                    | _ \<Rightarrow> False)\<rparr>)"
proof -
  have "Send d (TTuple [TAtom ''$saga_cancel'', TPid q,
                  TTuple [TRef a, TRef b, TString ''exceed_hop_limit'']])
          \<notin> set (snd (snd (handleSagaRequest sp' m' monref' cb')))"
    by (auto simp: handleSagaRequest_def handle_saga_next_def handle_saga_result_def
        handle_saga_interim_def cancel_reply_def Let_def split: option.splits)
  moreover have "case handleSagaRequest sp m monref cb of
            (st, sp', es) \<Rightarrow>
              st = cb \<and>
              es = [MonitorProcess (ToPid (Pid m)),
                    HandleTxNew (step_TransactionID stepMessage) (msg_Value stepMessage)] \<and>
              fmlookup (txs sp') (step_TransactionID stepMessage) = Some (next_addr sp) \<and>
              tx_parents (store sp' (next_addr sp)) = Pid m # Parents stepMessage \<and>
              tx_options (store sp' (next_addr sp)) = remote_txOptions (Options stepMessage)"
    using assms by (auto simp: handleSagaRequest_def handle_saga_next_def Let_def)
  moreover have "remote_txOptions (Options stepMessage) =
                \<lparr>HopLimit =
                   (case map_of (Options stepMessage) ''HopLimit'' of
                      Some (TInt64 hoplimit) \<Rightarrow> hoplimit
                    | _ \<Rightarrow> 65535),
                 Lifespan =
                   (case map_of (Options stepMessage) ''Lifespan'' of
                      Some (TInt64 lifespan) \<Rightarrow> lifespan
                    | _ \<Rightarrow> 60),
                 TwoPhaseCommit =
                   (case map_of (Options stepMessage) ''TwoPhaseCommit'' of
                      Some (TBool twophase) \<Rightarrow> twophase
                    | _ \<Rightarrow> False)\<rparr>"
    unfolding remote_txOptions_def defaultHopLimit_def defaultLifespan_def by (rule refl)
  ultimately show ?thesis
    by (simp split: prod.splits)
qed

theorem admission_has_no_hop_gate_witness:
  "Request ex_messageSaga = ''$saga_next'' \<and>
   into_messageSagaStep (Command ex_messageSaga) = Some ex_stepMessage \<and>
   \<not> (MaxTransactions (options ex_saga) > 0 \<and>
       len (txs ex_saga) + 1 > sint (MaxTransactions (options ex_saga))) \<and>
   fmlookup (txs ex_saga) (step_TransactionID ex_stepMessage) = None \<and>
   (case handleSagaRequest ex_saga ex_messageSaga 77 StatusOK of
      (st, sp', es) \<Rightarrow>
        st = StatusOK \<and>
        es = [MonitorProcess (ToPid 3), HandleTxNew 20 (TString ''x'')] \<and>
        fmlookup (txs sp') 20 = Some 0 \<and>
        tx_parents (store sp' 0) = [3, 2, 1] \<and>
        tx_options (store sp' 0) = \<lparr>HopLimit = 2, Lifespan = 60, TwoPhaseCommit = False\<rparr>) \<and>
   Request ex_messageSaga_uint = ''$saga_next'' \<and>
   into_messageSagaStep (Command ex_messageSaga_uint) = Some ex_stepMessage_uint \<and>
   fmlookup (txs ex_saga) (step_TransactionID ex_stepMessage_uint) = None \<and>
   (case handleSagaRequest ex_saga ex_messageSaga_uint 77 StatusOK of
      (st, sp', es) \<Rightarrow>
        st = StatusOK \<and>
        es = [MonitorProcess (ToPid 3), HandleTxNew 20 (TString ''x'')] \<and>
        fmlookup (txs sp') 20 = Some 0 \<and>
        tx_parents (store sp' 0) = [3, 2, 1] \<and>
        tx_options (store sp' 0) =
          \<lparr>HopLimit = 65535, Lifespan = 60, TwoPhaseCommit = False\<rparr>)"
proof -
  have h1: "Request ex_messageSaga = ''$saga_next''"
    by (simp add: ex_messageSaga_def)
  have h2: "into_messageSagaStep (Command ex_messageSaga) = Some ex_stepMessage"
    by (simp add: ex_messageSaga_def ex_stepMessage_def into_messageSagaStep_def)
  have h3: "\<not> (MaxTransactions (options ex_saga) > 0 \<and>
       len (txs ex_saga) + 1 > sint (MaxTransactions (options ex_saga)))"
    by (simp add: ex_saga_def)
  have h4: "fmlookup (txs ex_saga) (step_TransactionID ex_stepMessage) = None"
    by (simp add: ex_saga_def ex_stepMessage_def)
  have g1: "Request ex_messageSaga_uint = ''$saga_next''"
    by (simp add: ex_messageSaga_uint_def)
  have g2: "into_messageSagaStep (Command ex_messageSaga_uint) = Some ex_stepMessage_uint"
    by (simp add: ex_messageSaga_uint_def ex_stepMessage_uint_def into_messageSagaStep_def)
  have g4: "fmlookup (txs ex_saga) (step_TransactionID ex_stepMessage_uint) = None"
    by (simp add: ex_saga_def ex_stepMessage_uint_def)
  have v: "Pid ex_messageSaga = 3" "step_TransactionID ex_stepMessage = 20"
    "msg_Value ex_stepMessage = TString ''x''" "Parents ex_stepMessage = [2, 1]"
    "next_addr ex_saga = 0"
    "Options ex_stepMessage =
       [(''HopLimit'', TInt64 2), (''Lifespan'', TInt64 60), (''TwoPhaseCommit'', TBool False)]"
    "Pid ex_messageSaga_uint = 3" "step_TransactionID ex_stepMessage_uint = 20"
    "msg_Value ex_stepMessage_uint = TString ''x''" "Parents ex_stepMessage_uint = [2, 1]"
    "Options ex_stepMessage_uint =
       [(''HopLimit'', TUint 2), (''Lifespan'', TInt64 60), (''TwoPhaseCommit'', TBool False)]"
    by (simp_all add: ex_messageSaga_def ex_stepMessage_def ex_saga_def
        ex_messageSaga_uint_def ex_stepMessage_uint_def)
  from admission_has_no_hop_gate[OF h1 h2 h3 h4, where monref = 77 and cb = StatusOK,
      THEN conjunct2]
  have a: "case handleSagaRequest ex_saga ex_messageSaga 77 StatusOK of
      (st, sp', es) \<Rightarrow>
        st = StatusOK \<and>
        es = [MonitorProcess (ToPid 3), HandleTxNew 20 (TString ''x'')] \<and>
        fmlookup (txs sp') 20 = Some 0 \<and>
        tx_parents (store sp' 0) = [3, 2, 1] \<and>
        tx_options (store sp' 0) = \<lparr>HopLimit = 2, Lifespan = 60, TwoPhaseCommit = False\<rparr>"
    by (simp add: v)
  from admission_has_no_hop_gate[OF g1 g2 h3 g4, where monref = 77 and cb = StatusOK,
      THEN conjunct2]
  have b: "case handleSagaRequest ex_saga ex_messageSaga_uint 77 StatusOK of
      (st, sp', es) \<Rightarrow>
        st = StatusOK \<and>
        es = [MonitorProcess (ToPid 3), HandleTxNew 20 (TString ''x'')] \<and>
        fmlookup (txs sp') 20 = Some 0 \<and>
        tx_parents (store sp' 0) = [3, 2, 1] \<and>
        tx_options (store sp' 0) =
          \<lparr>HopLimit = 65535, Lifespan = 60, TwoPhaseCommit = False\<rparr>"
    by (simp add: v)
  from h1 h2 h3 h4 g1 g2 g4 a b show ?thesis by blast
qed

subsection \<open>Cancellation (C2)\<close>

lemma HandleInfo_saga_cancel:
  assumes "into_messageSaga message = Some m" and "Request m = ''$saga_cancel''"
  shows "HandleInfo sp message monref cb cbinfo = (cbinfo, sp, [HandleSagaInfo message])"
proof -
  have "handleSagaRequest sp m monref cb = (sagaStatusUnsupported, sp, [])"
    using assms(2) by (simp add: handleSagaRequest_def)
  with assms(1) into_messageSaga_shape[OF assms(1)] show ?thesis
    by (simp add: HandleInfo_other)
qed

lemma ex_forwarder_state:
  "fmlookup (txs ex_forwarder) 20 = Some 0"
  "fmlookup (steps ex_forwarder) 30 = Some 0"
  "fmlookup (tx_steps (store ex_forwarder 0)) 30 = Some ex_step"
  "tx_id (store ex_forwarder 0) = 20"
  "tx_origin (store ex_forwarder 0) = 10"
  "tx_parents (store ex_forwarder 0) = [3, 2, 1]"
  "self ex_forwarder = 4"
  by (simp_all add: ex_forwarder_def run_def exec_def HandleInfo_other ex_next_not_struct
      ex_next_decodes ex_saga_def handleSagaRequest_def into_messageSagaStep_def
      handle_saga_next_def remote_txOptions_def Next_def ex_step_def Let_def)

text \<open>
  C2, the code at the failing input. The claim says that a Saga holding the
  transaction, on receiving \<^verbatim>\<open>$saga_cancel\<close>, invokes \<^verbatim>\<open>HandleTxCancel\<close>, forwards the
  cancel to every step target, demonitors each and removes the transaction, and that
  \<^verbatim>\<open>CancelTransaction\<close> triggers this by posting \<^verbatim>\<open>$saga_cancel\<close> to the Saga itself.
  \<^verbatim>\<open>handleSagaRequest\<close> has no case for \<^verbatim>\<open>$saga_cancel\<close>. Saga 4 has admitted
  transaction 20 from saga 3 and sent step 30 to process 5. \<^verbatim>\<open>CancelTransaction\<close> does
  post the message to the Saga itself; but on receiving it, or the same cancel from
  saga 3, the Saga only hands the message to \<^verbatim>\<open>HandleSagaInfo\<close>: \<^verbatim>\<open>HandleTxCancel\<close> is not
  invoked, nothing goes to process 5, no monitor is removed, and the transaction and
  its step stay where they were.
\<close>

theorem cancel_reception_at_failing_input:
  "fmlookup (txs ex_forwarder) 20 = Some 0 \<and>
   fmlookup (tx_steps (store ex_forwarder 0)) 30 = Some ex_step \<and>
   CancelTransaction ex_forwarder 20 ''stop'' =
     (ex_forwarder,
      [Send (ToPid 4)
         (TTuple [TAtom ''$saga_cancel'', TPid 4,
            TTuple [TRef 20, TRef 10, TString ''stop'']])]) \<and>
   HandleInfo ex_forwarder
       (TTuple [TAtom ''$saga_cancel'', TPid 4, TTuple [TRef 20, TRef 10, TString ''stop'']])
       77 StatusOK StatusOK =
     (StatusOK, ex_forwarder,
      [HandleSagaInfo
         (TTuple [TAtom ''$saga_cancel'', TPid 4,
            TTuple [TRef 20, TRef 10, TString ''stop'']])]) \<and>
   HandleInfo ex_forwarder ex_cancel 77 StatusOK StatusOK =
     (StatusOK, ex_forwarder, [HandleSagaInfo ex_cancel])"
proof -
  have a: "CancelTransaction ex_forwarder 20 ''stop'' =
     (ex_forwarder,
      [Send (ToPid 4)
         (TTuple [TAtom ''$saga_cancel'', TPid 4,
            TTuple [TRef 20, TRef 10, TString ''stop'']])])"
    by (simp add: CancelTransaction_def ex_forwarder_state Let_def)
  have b: "HandleInfo ex_forwarder
       (TTuple [TAtom ''$saga_cancel'', TPid 4, TTuple [TRef 20, TRef 10, TString ''stop'']])
       77 StatusOK StatusOK =
     (StatusOK, ex_forwarder,
      [HandleSagaInfo
         (TTuple [TAtom ''$saga_cancel'', TPid 4,
            TTuple [TRef 20, TRef 10, TString ''stop'']])])"
    using HandleInfo_saga_cancel[of
        "TTuple [TAtom ''$saga_cancel'', TPid 4, TTuple [TRef 20, TRef 10, TString ''stop'']]"
        "\<lparr>Request = ''$saga_cancel'', Pid = 4,
          Command = TTuple [TRef 20, TRef 10, TString ''stop'']\<rparr>"
        ex_forwarder 77 StatusOK StatusOK]
    by (simp add: into_messageSaga_def)
  have c: "HandleInfo ex_forwarder ex_cancel 77 StatusOK StatusOK =
     (StatusOK, ex_forwarder, [HandleSagaInfo ex_cancel])"
    using HandleInfo_saga_cancel[of ex_cancel
        "\<lparr>Request = ''$saga_cancel'', Pid = 3,
          Command = TTuple [TRef 20, TRef 10, TString ''stop'']\<rparr>"
        ex_forwarder 77 StatusOK StatusOK]
    by (simp add: into_messageSaga_def ex_cancel_def)
  from ex_forwarder_state(1,3) a b c show ?thesis by simp
qed

subsection \<open>Removal of a transaction (C3)\<close>















subsection \<open>Admission of \<^verbatim>\<open>$saga_next\<close>: loop detection (C4)\<close>

text \<open>
  C4, counterexample. Saga 4 is the originator of transaction 20: the transaction is
  in its map with no parents. A \<^verbatim>\<open>$saga_next\<close> for transaction 20 reaches it from saga
  3. The code sends no \<^verbatim>\<open>$saga_cancel\<close> and invokes \<^verbatim>\<open>HandleTxNew\<close>. And a saga that
  holds transaction 20 with parents, and whose transaction limit of 1 is reached,
  answers the same message with the reason \<^verbatim>\<open>exceed_tx_limit\<close>, not \<^verbatim>\<open>loop_detected\<close>.
\<close>

theorem loop_detection_counterexample:
  "fmlookup (txs ex_originator) 20 = Some 0 \<and>
   HandleInfo ex_originator (ex_next 2 60) 77 StatusOK StatusOK =
     (StatusOK, ex_originator, [MonitorProcess (ToPid 3), HandleTxNew 20 (TString ''x'')]) \<and>
   fmlookup (txs (ex_holder\<lparr>options := \<lparr>MaxTransactions = 1, Worker = None\<rparr>\<rparr>)) 20 = Some 0 \<and>
   HandleInfo (ex_holder\<lparr>options := \<lparr>MaxTransactions = 1, Worker = None\<rparr>\<rparr>)
       (ex_next 2 60) 77 StatusOK StatusOK =
     (StatusOK, ex_holder\<lparr>options := \<lparr>MaxTransactions = 1, Worker = None\<rparr>\<rparr>,
      [Send (ToPid 3)
         (TTuple [TAtom ''$saga_cancel'', TPid 4,
            TTuple [TRef 10, TRef 20, TString ''exceed_tx_limit'']])])"
  by (simp add: HandleInfo_other ex_next_not_struct ex_next_decodes
      ex_originator_def ex_origin_tx_def ex_holder_def ex_parent_tx_def
      handleSagaRequest_def into_messageSagaStep_def
      handle_saga_next_def cancel_reply_def len_fmupd Let_def)

text \<open>
  C4, as amended. For a \<^verbatim>\<open>$saga_next\<close> that passes the capacity gate and whose
  transaction is in the map: when the stored transaction has parents, the Saga sends
  \<^verbatim>\<open>$saga_cancel\<close> with the reason \<^verbatim>\<open>loop_detected\<close> to the sender and does nothing
  else; when it has none (the transaction started here), the Saga monitors the sender
  and invokes \<^verbatim>\<open>HandleTxNew\<close>. In both cases the state, and with it the stored
  transaction, is unchanged.
\<close>

theorem loop_detection:
  assumes "Request m = ''$saga_next''"
    and "into_messageSagaStep (Command m) = Some stepMessage"
    and "\<not> (MaxTransactions (options sp) > 0 \<and>
            len (txs sp) + 1 > sint (MaxTransactions (options sp)))"
    and "fmlookup (txs sp) (step_TransactionID stepMessage) = Some p"
  shows "handleSagaRequest sp m monref cb =
           (if tx_parents (store sp p) \<noteq> []
            then (StatusOK, sp,
                  [Send (ToPid (Pid m))
                     (TTuple [TAtom ''$saga_cancel'', TPid (self sp),
                        TTuple [TRef (step_Origin stepMessage),
                                TRef (step_TransactionID stepMessage),
                                TString ''loop_detected'']])])
            else (cb, sp,
                  [MonitorProcess (ToPid (Pid m)),
                   HandleTxNew (step_TransactionID stepMessage) (msg_Value stepMessage)]))"
  using assms
  by (auto simp: handleSagaRequest_def handle_saga_next_def cancel_reply_def Let_def)

theorem loop_detection_witness:
  "Request ex_messageSaga = ''$saga_next'' \<and>
   into_messageSagaStep (Command ex_messageSaga) = Some ex_stepMessage \<and>
   \<not> (MaxTransactions (options ex_holder) > 0 \<and>
       len (txs ex_holder) + 1 > sint (MaxTransactions (options ex_holder))) \<and>
   fmlookup (txs ex_holder) (step_TransactionID ex_stepMessage) = Some 0 \<and>
   handleSagaRequest ex_holder ex_messageSaga 77 StatusOK =
     (StatusOK, ex_holder,
      [Send (ToPid 3)
         (TTuple [TAtom ''$saga_cancel'', TPid 4,
            TTuple [TRef 10, TRef 20, TString ''loop_detected'']])]) \<and>
   \<not> (MaxTransactions (options ex_originator) > 0 \<and>
       len (txs ex_originator) + 1 > sint (MaxTransactions (options ex_originator))) \<and>
   fmlookup (txs ex_originator) (step_TransactionID ex_stepMessage) = Some 0 \<and>
   handleSagaRequest ex_originator ex_messageSaga 77 StatusOK =
     (StatusOK, ex_originator, [MonitorProcess (ToPid 3), HandleTxNew 20 (TString ''x'')])"
proof -
  have h1: "Request ex_messageSaga = ''$saga_next''"
    by (simp add: ex_messageSaga_def)
  have h2: "into_messageSagaStep (Command ex_messageSaga) = Some ex_stepMessage"
    by (simp add: ex_messageSaga_def ex_stepMessage_def into_messageSagaStep_def)
  have h3: "\<not> (MaxTransactions (options ex_holder) > 0 \<and>
       len (txs ex_holder) + 1 > sint (MaxTransactions (options ex_holder)))"
    by (simp add: ex_holder_def)
  have h4: "fmlookup (txs ex_holder) (step_TransactionID ex_stepMessage) = Some 0"
    by (simp add: ex_holder_def ex_stepMessage_def)
  have g3: "\<not> (MaxTransactions (options ex_originator) > 0 \<and>
       len (txs ex_originator) + 1 > sint (MaxTransactions (options ex_originator)))"
    by (simp add: ex_originator_def)
  have g4: "fmlookup (txs ex_originator) (step_TransactionID ex_stepMessage) = Some 0"
    by (simp add: ex_originator_def ex_stepMessage_def)
  have v: "Pid ex_messageSaga = 3" "step_TransactionID ex_stepMessage = 20"
    "step_Origin ex_stepMessage = 10" "msg_Value ex_stepMessage = TString ''x''"
    "self ex_holder = 4" "tx_parents (store ex_holder 0) = [3, 2, 1]"
    "tx_parents (store ex_originator 0) = []"
    by (simp_all add: ex_messageSaga_def ex_stepMessage_def ex_holder_def ex_parent_tx_def
        ex_originator_def ex_origin_tx_def)
  have a: "handleSagaRequest ex_holder ex_messageSaga 77 StatusOK =
     (StatusOK, ex_holder,
      [Send (ToPid 3)
         (TTuple [TAtom ''$saga_cancel'', TPid 4,
            TTuple [TRef 10, TRef 20, TString ''loop_detected'']])])"
    using loop_detection[OF h1 h2 h3 h4, of 77 StatusOK] by (simp add: v)
  have b: "handleSagaRequest ex_originator ex_messageSaga 77 StatusOK =
     (StatusOK, ex_originator, [MonitorProcess (ToPid 3), HandleTxNew 20 (TString ''x'')])"
    using loop_detection[OF h1 h2 g3 g4, of 77 StatusOK] by (simp add: v)
  from h1 h2 h3 h4 g3 g4 a b show ?thesis by blast
qed

subsection \<open>Reception of \<^verbatim>\<open>$saga_result\<close> (C5)\<close>

text \<open>
  C5. A \<^verbatim>\<open>$saga_result\<close> carries the transaction reference \<open>txref\<close>, the step id
  \<open>step_id\<close> and the value \<open>v\<close>. When the step id is not in the step index the message
  is ignored: no state change, no callback. Otherwise the owning transaction is the
  object the step index points to. When its id differs from \<open>txref\<close> the Saga reports
  the mismatch error, invokes nothing and leaves every transaction as it was. When the
  ids agree, the Saga invokes \<^verbatim>\<open>HandleTxResult\<close> with the transaction id, the step id
  and the value, and returns no error; before that it has deleted the step from the
  transaction when two-phase commit is disabled, and marked it done when it is
  enabled. (The step to mark is found because the step index is sound, which it is
  in every state operations reach from empty maps.)
\<close>

theorem saga_result_handling:
  assumes "Request m = ''$saga_result''"
    and "Command m = TTuple [TRef txref, TRef step_id, v]"
  shows "(fmlookup (steps sp) step_id = None \<longrightarrow>
            handleSagaRequest sp m monref cb = (StatusOK, sp, []))
       \<and> (fmlookup (steps sp) step_id = Some p \<and> tx_id (store sp p) \<noteq> txref \<longrightarrow>
            (case handleSagaRequest sp m monref cb of
               (st, sp', es) \<Rightarrow>
                 st = Error ''transaction id mismatch in saga result'' \<and> es = [] \<and>
                 store sp' = store sp \<and> txs sp' = txs sp))
       \<and> (fmlookup (steps sp) step_id = Some p \<and> tx_id (store sp p) = txref \<and>
            \<not> TwoPhaseCommit (tx_options (store sp p)) \<longrightarrow>
            (case handleSagaRequest sp m monref cb of
               (st, sp', es) \<Rightarrow>
                 st = StatusOK \<and> es = [HandleTxResult txref step_id v] \<and>
                 store sp' p = (store sp p)
                   \<lparr>tx_steps := fmdrop step_id (tx_steps (store sp p))\<rparr>))
       \<and> (fmlookup (steps sp) step_id = Some p \<and> tx_id (store sp p) = txref \<and>
            TwoPhaseCommit (tx_options (store sp p)) \<and> index_ok sp \<longrightarrow>
            (case handleSagaRequest sp m monref cb of
               (st, sp', es) \<Rightarrow>
                 st = StatusOK \<and> es = [HandleTxResult txref step_id v] \<and>
                 (\<exists>step. fmlookup (tx_steps (store sp p)) step_id = Some step \<and>
                    store sp' p = (store sp p)
                      \<lparr>tx_steps := fmupd step_id (step\<lparr>step_done := True\<rparr>)
                                     (tx_steps (store sp p))\<rparr>)))"
proof -
  have d: "into_messageSagaResult (Command m) =
      Some \<lparr>result_TransactionID = txref, result_Origin = step_id, Result = v\<rparr>"
    using assms(2) by (simp add: into_messageSagaResult_def)
  have r: "handleSagaRequest sp m monref cb =
      handle_saga_result sp \<lparr>result_TransactionID = txref, result_Origin = step_id, Result = v\<rparr>"
    using assms(1) d by (simp add: handleSagaRequest_def)
  have "fmlookup (steps sp) step_id = Some p \<and> index_ok sp \<longrightarrow>
      (\<exists>step. fmlookup (tx_steps (store sp p)) step_id = Some step)"
    using index_ok_known_step[of sp step_id p] by blast
  then show ?thesis
    unfolding r by (auto simp: handle_saga_result_def Let_def)
qed

theorem saga_result_handling_witness:
  "Request (ex_result 20) = ''$saga_result'' \<and>
   Command (ex_result 20) = TTuple [TRef 20, TRef 30, TString ''y-ok''] \<and>
   fmlookup (steps ex_holder) 30 = None \<and>
   handleSagaRequest ex_holder (ex_result 20) 0 StatusOK = (StatusOK, ex_holder, []) \<and>
   fmlookup (steps (ex_stepper False)) 30 = Some 0 \<and>
   tx_id (store (ex_stepper False) 0) \<noteq> 21 \<and>
   fst (handleSagaRequest (ex_stepper False) (ex_result 21) 0 StatusOK) =
     Error ''transaction id mismatch in saga result'' \<and>
   \<not> TwoPhaseCommit (tx_options (store (ex_stepper False) 0)) \<and>
   (case handleSagaRequest (ex_stepper False) (ex_result 20) 0 StatusOK of
      (st, sp', es) \<Rightarrow>
        st = StatusOK \<and> es = [HandleTxResult 20 30 (TString ''y-ok'')] \<and>
        fmlookup (tx_steps (store sp' 0)) 30 = None) \<and>
   TwoPhaseCommit (tx_options (store (ex_stepper True) 0)) \<and>
   index_ok (ex_stepper True) \<and>
   (case handleSagaRequest (ex_stepper True) (ex_result 20) 0 StatusOK of
      (st, sp', es) \<Rightarrow>
        st = StatusOK \<and> es = [HandleTxResult 20 30 (TString ''y-ok'')] \<and>
        fmlookup (tx_steps (store sp' 0)) 30 = Some (ex_step\<lparr>step_done := True\<rparr>))"
proof -
  have r: "Request (ex_result t) = ''$saga_result''"
    "Command (ex_result t) = TTuple [TRef t, TRef 30, TString ''y-ok'']" for t
    by (simp_all add: ex_result_def)
  have s: "fmlookup (steps ex_holder) 30 = None"
    "fmlookup (steps (ex_stepper b)) 30 = Some 0"
    "tx_id (store (ex_stepper b) 0) = 20"
    "TwoPhaseCommit (tx_options (store (ex_stepper b) 0)) = b"
    "fmlookup (tx_steps (store (ex_stepper b) 0)) 30 = Some ex_step" for b
    by (simp_all add: ex_holder_def ex_stepper_def ex_parent_tx_def)
  have i: "index_ok (ex_stepper True)"
    by (simp add: index_ok_iff ex_stepper_def ex_parent_tx_def)
  have a: "handleSagaRequest ex_holder (ex_result 20) 0 StatusOK = (StatusOK, ex_holder, [])"
    using saga_result_handling[OF r(1)[of 20] r(2)[of 20], where sp = ex_holder and monref = 0
        and cb = StatusOK and p = 0] s by simp
  have b: "fst (handleSagaRequest (ex_stepper False) (ex_result 21) 0 StatusOK) =
     Error ''transaction id mismatch in saga result''"
    using saga_result_handling[OF r(1)[of 21] r(2)[of 21], where sp = "ex_stepper False"
        and monref = 0 and cb = StatusOK and p = 0]
    by (auto simp: s split: prod.splits)
  have c: "case handleSagaRequest (ex_stepper False) (ex_result 20) 0 StatusOK of
      (st, sp', es) \<Rightarrow>
        st = StatusOK \<and> es = [HandleTxResult 20 30 (TString ''y-ok'')] \<and>
        fmlookup (tx_steps (store sp' 0)) 30 = None"
    using saga_result_handling[OF r(1)[of 20] r(2)[of 20], where sp = "ex_stepper False"
        and monref = 0 and cb = StatusOK and p = 0]
    by (auto simp: s split: prod.splits)
  have d: "case handleSagaRequest (ex_stepper True) (ex_result 20) 0 StatusOK of
      (st, sp', es) \<Rightarrow>
        st = StatusOK \<and> es = [HandleTxResult 20 30 (TString ''y-ok'')] \<and>
        fmlookup (tx_steps (store sp' 0)) 30 = Some (ex_step\<lparr>step_done := True\<rparr>)"
    using saga_result_handling[OF r(1)[of 20] r(2)[of 20], where sp = "ex_stepper True"
        and monref = 0 and cb = StatusOK and p = 0] i
    by (auto simp: s split: prod.splits)
  from r[of 20] s(1) s(2)[of False] s(3)[of False] s(4)[of False] s(4)[of True] i a b c d
  show ?thesis by simp
qed

subsection \<open>\<^verbatim>\<open>Next\<close> and the remaining lifespan (C6)\<close>



















subsection \<open>Exit of a linked worker (C7)\<close>

text \<open>
  C7. When \<^verbatim>\<open>HandleInfo\<close> of a Saga receives the exit message of a worker whose job is
  registered in \<^verbatim>\<open>sp.jobs\<close>, and the exit reason is not \<^verbatim>\<open>normal\<close>, it invokes
  \<^verbatim>\<open>HandleJobFailed\<close> with the id of that job and the exit reason, changes no state and
  returns the status of the callback.
\<close>

theorem worker_exit_abnormal:
  assumes "jobs_lookup sp pid = Some job" and "reason \<noteq> ''normal''"
  shows "HandleInfo sp (TMessageExit pid reason) monref cb cbinfo =
           (cb, sp, [HandleJobFailed (job_ID job) reason])"
  using assms by (simp add: HandleInfo_def handleSagaExit_def)

theorem worker_exit_abnormal_witness:
  "jobs_lookup ex_employer 8 = Some ex_job \<and> ''panic'' \<noteq> ''normal'' \<and>
   HandleInfo ex_employer (TMessageExit 8 ''panic'') 0 StatusOK StatusOK =
     (StatusOK, ex_employer, [HandleJobFailed 40 ''panic''])"
proof -
  have h1: "jobs_lookup ex_employer 8 = Some ex_job"
    by (simp add: jobs_lookup_def ex_employer_def)
  have h2: "''panic'' \<noteq> ''normal''" by simp
  have "job_ID ex_job = 40" by (simp add: ex_job_def)
  with worker_exit_abnormal[OF h1 h2, of 0 StatusOK StatusOK] h1 h2 show ?thesis by simp
qed

subsection \<open>The server loops on context cancellation (C8)\<close>

text \<open>\<^verbatim>\<open>Server.ProcessLoop\<close> does what the claim says: whenever the loop, still running
  after the cases \<open>cs\<close>, takes the case of the cancelled context, it invokes
  \<^verbatim>\<open>Terminate\<close> with the reason \<^verbatim>\<open>kill\<close> as the last thing it does and returns the reason
  \<^verbatim>\<open>kill\<close>; whatever else is ready (\<open>rest\<close>) is not looked at.\<close>

lemma ProcessLoop_context_cancel:
  assumes "ProcessLoop_run gsp cs = (Continue, gsp', es)"
  shows "ProcessLoop gsp True (cs @ ContextDone # rest) =
           (Return ''kill'', gsp', Started # es @ [Terminate ''kill''])"
  using ProcessLoop_run_append[OF assms, of "ContextDone # rest"]
  by (simp add: ProcessLoop_def ProcessLoop_step_def)

lemma ProcessLoop_context_cancel_example:
  "ProcessLoop ex_process True ([Mailbox 3 (ex_next 2 60)] @ ContextDone # [StopReason ''x'']) =
     (Return ''kill'', ex_process\<lparr>reductions := 1\<rparr>,
      Started # [GoHandleInfo (ex_next 2 60)] @ [Terminate ''kill''])"
proof -
  have h: "ProcessLoop_run ex_process [Mailbox 3 (ex_next 2 60)] =
     (Continue, ex_process\<lparr>reductions := 1\<rparr>, [GoHandleInfo (ex_next 2 60)])"
    by (simp add: ProcessLoop_step_def dispatch_def ex_next_def ex_process_def)
  from ProcessLoop_context_cancel[OF h, of "[StopReason ''x'']"] show ?thesis by simp
qed

text \<open>
  C8, the code at the failing input. The claim says that on cancellation of the
  process context the loop invokes \<^verbatim>\<open>Terminate\<close> and then returns \<^verbatim>\<open>kill\<close>.
  \<^verbatim>\<open>GenServer.Loop\<close> returns \<^verbatim>\<open>kill\<close> from the case of the cancelled context without
  invoking \<^verbatim>\<open>Terminate\<close>: in every iteration, and so in the run where the loop has
  handled one message and then finds the context cancelled. The other two returning
  cases of the same \<^verbatim>\<open>select\<close>, the graceful exit and the \<^verbatim>\<open>stop\<close> channel, do invoke
  \<^verbatim>\<open>Terminate\<close> before they return, as does the case of the cancelled context in
  \<^verbatim>\<open>Server.ProcessLoop\<close>.
\<close>

theorem GenServer_Loop_kill_without_Terminate:
  "GenServer_Loop_step p ContextDone = (Return ''kill'', p, []) \<and>
   GenServer_Loop ex_gs_process [Mailbox 3 (ex_next 2 60), ContextDone] =
     (Return ''kill'', ex_gs_process\<lparr>gs_reductions := 1\<rparr>,
      [Started, GoHandleInfo (ex_next 2 60)]) \<and>
   GenServer_Loop_step p (StopReason reason) = (Return reason, p, [Terminate reason]) \<and>
   GenServer_Loop_step p (GracefulExit sender reason) =
     (Return reason, p, [Terminate reason]) \<and>
   ProcessLoop_step gsp ContextDone = (Return ''kill'', gsp, [Terminate ''kill''])"
  by (simp add: GenServer_Loop_def GenServer_Loop_step_def GenServer_dispatch_def
      ProcessLoop_step_def ex_next_def ex_gs_process_def)

subsection \<open>Originator transactions have no parent to report to (C9)\<close>

text \<open>
  C9. For a transaction of the map whose parents list is empty, \<^verbatim>\<open>SendResult\<close> and
  \<^verbatim>\<open>SendInterim\<close> return the error \<^verbatim>\<open>no parent saga\<close>, make no call and leave the state
  of the Saga (its transaction, step and job maps among it) unchanged. The error is
  another one than \<^verbatim>\<open>unknown transaction\<close>, which both return for a transaction that
  is not in the map.
\<close>

theorem no_parent_saga:
  assumes "fmlookup (txs sp) id' = Some p" and "tx_parents (store sp p) = []"
    and "fmlookup (txs sp) other = None"
  shows "SendResult sp id' v call_err = (Error ''no parent saga'', sp, []) \<and>
         SendInterim sp id' v call_err = (Error ''no parent saga'', sp, []) \<and>
         SendResult sp other v call_err = (Error ''unknown transaction'', sp, []) \<and>
         SendInterim sp other v call_err = (Error ''unknown transaction'', sp, []) \<and>
         Error ''no parent saga'' \<noteq> Error ''unknown transaction''"
  using assms by (simp add: SendResult_def SendInterim_def)

theorem no_parent_saga_witness:
  "fmlookup (txs ex_originator) 20 = Some 0 \<and>
   tx_parents (store ex_originator 0) = [] \<and>
   fmlookup (txs ex_originator) 21 = None \<and>
   SendResult ex_originator 20 (TString ''r'') StatusOK =
     (Error ''no parent saga'', ex_originator, []) \<and>
   SendInterim ex_originator 20 (TString ''r'') StatusOK =
     (Error ''no parent saga'', ex_originator, []) \<and>
   SendResult ex_originator 21 (TString ''r'') StatusOK =
     (Error ''unknown transaction'', ex_originator, [])"
proof -
  have h1: "fmlookup (txs ex_originator) 20 = Some 0"
    by (simp add: ex_originator_def)
  have h2: "tx_parents (store ex_originator 0) = []"
    by (simp add: ex_originator_def ex_origin_tx_def)
  have h3: "fmlookup (txs ex_originator) 21 = None"
    by (simp add: ex_originator_def)
  from no_parent_saga[OF h1 h2 h3, of "TString ''r''" StatusOK] h1 h2 h3
  show ?thesis by simp
qed

subsection \<open>A Saga traps exits (C10)\<close>

lemma ProcessLoop_step_trapExit:
  "ProcessLoop_step gsp c = (r, gsp', es) \<Longrightarrow> trapExit gsp' = trapExit gsp"
  by (auto simp: ProcessLoop_step_def split: select_case.splits if_splits prod.splits)

lemma ProcessLoop_run_trapExit:
  "ProcessLoop_run gsp cs = (r, gsp', es) \<Longrightarrow> trapExit gsp' = trapExit gsp"
proof (induction cs arbitrary: gsp r gsp' es)
  case Nil
  then show ?case by simp
next
  case (Cons c cs)
  obtain r1 g1 e1 where step: "ProcessLoop_step gsp c = (r1, g1, e1)"
    by (cases "ProcessLoop_step gsp c") auto
  obtain r2 g2 e2 where tail: "ProcessLoop_run g1 cs = (r2, g2, e2)"
    by (cases "ProcessLoop_run g1 cs") auto
  from ProcessLoop_step_trapExit[OF step] Cons.IH[OF tail] Cons.prems step tail
  show ?case by (cases r1) auto
qed

lemma Init_trapExit:
  "Init process b InitSaga = (StatusOK, process') \<Longrightarrow> trapExit process'"
  by (auto simp: Init_def Let_def split: if_splits prod.splits)

text \<open>
  C10. When \<^verbatim>\<open>Init\<close> of a Saga succeeds, trap-exit is enabled on the process. Whenever
  the loop started on that process, still running after the cases \<open>cs\<close>, takes a
  graceful-exit signal, it turns the signal into a \<^verbatim>\<open>MessageExit\<close> handed to
  \<^verbatim>\<open>HandleInfo\<close> in a goroutine and keeps running: it neither invokes \<^verbatim>\<open>Terminate\<close> nor
  returns. \<^verbatim>\<open>HandleInfo\<close> of the Saga passes a \<^verbatim>\<open>MessageExit\<close> to \<^verbatim>\<open>handleSagaExit\<close>.
  (The loop reads the flag at each signal and never writes it; nothing in the Saga
  code clears it.)
\<close>

theorem saga_traps_exit:
  assumes "Init process is_SagaBehavior InitSaga = (StatusOK, process')"
    and "ProcessLoop_run process' cs = (Continue, gsp, es)"
  shows "trapExit process' \<and>
         ProcessLoop process' True (cs @ [GracefulExit sender reason]) =
           (Continue, gsp\<lparr>reductions := reductions gsp + 1\<rparr>,
            Started # es @ [GoHandleInfo (TMessageExit sender reason)]) \<and>
         HandleInfo sp (TMessageExit sender reason) monref cb cbinfo =
           handleSagaExit sp sender reason cb"
proof -
  have t: "trapExit process'" by (rule Init_trapExit[OF assms(1)])
  with ProcessLoop_run_trapExit[OF assms(2)] have "trapExit gsp" by simp
  then have "ProcessLoop_step gsp (GracefulExit sender reason) =
      (Continue, gsp\<lparr>reductions := reductions gsp + 1\<rparr>,
       [GoHandleInfo (TMessageExit sender reason)])"
    by (simp add: ProcessLoop_step_def dispatch_def)
  with ProcessLoop_run_append[OF assms(2), of "[GracefulExit sender reason]"] t
  show ?thesis by (simp add: ProcessLoop_def HandleInfo_def)
qed

theorem saga_traps_exit_witness:
  "Init ex_process True ex_InitSaga =
     (StatusOK, ex_process\<lparr>State := Some ex_saga, trapExit := True\<rparr>) \<and>
   ProcessLoop_run (ex_process\<lparr>State := Some ex_saga, trapExit := True\<rparr>)
       [Mailbox 3 (ex_next 2 60), GracefulExit 9 ''normal''] =
     (Continue, ex_process\<lparr>State := Some ex_saga, trapExit := True, reductions := 2\<rparr>,
      [GoHandleInfo (ex_next 2 60), GoHandleInfo (TMessageExit 9 ''normal'')]) \<and>
   trapExit (ex_process\<lparr>State := Some ex_saga, trapExit := True\<rparr>) \<and>
   ProcessLoop (ex_process\<lparr>State := Some ex_saga, trapExit := True\<rparr>) True
       ([Mailbox 3 (ex_next 2 60), GracefulExit 9 ''normal''] @ [GracefulExit 8 ''panic'']) =
     (Continue, ex_process\<lparr>State := Some ex_saga, trapExit := True, reductions := 3\<rparr>,
      [Started, GoHandleInfo (ex_next 2 60), GoHandleInfo (TMessageExit 9 ''normal''),
       GoHandleInfo (TMessageExit 8 ''panic'')])"
proof -
  have h: "Init ex_process True ex_InitSaga =
     (StatusOK, ex_process\<lparr>State := Some ex_saga, trapExit := True\<rparr>)"
    by (simp add: Init_def ex_process_def ex_InitSaga_def ex_saga_def)
  have g: "ProcessLoop_run (ex_process\<lparr>State := Some ex_saga, trapExit := True\<rparr>)
       [Mailbox 3 (ex_next 2 60), GracefulExit 9 ''normal''] =
     (Continue, ex_process\<lparr>State := Some ex_saga, trapExit := True, reductions := 2\<rparr>,
      [GoHandleInfo (ex_next 2 60), GoHandleInfo (TMessageExit 9 ''normal'')])"
    by (simp add: ProcessLoop_step_def dispatch_def ex_next_def ex_process_def)
  from saga_traps_exit[OF h g, of 8 "''panic''"] h g show ?thesis by simp
qed

end
